theory Spec2Isabelle
  imports Main "HOL-Library.Sublist" "HOL-Library.Char_ord" "HOL-Library.List_Lexorder"
    "HOL-Library.AList"
begin

section \<open>The dashboard client of \<^verbatim>\<open>dashboard/dashapi/dashapi.go\<close>\<close>

text \<open>
  Go strings and byte slices are byte sequences: both are \<open>char list\<close> here (an Isabelle
  \<open>char\<close> is one byte). A Go \<^verbatim>\<open>error\<close> is identified with the text its \<^verbatim>\<open>Error()\<close> method
  gives, which is all that \<^verbatim>\<open>fmt.Errorf("...%v", err)\<close> reads of it; \<open>None\<close> is the nil error.
\<close>

type_synonym bytes = string
type_synonym error = string

subsection \<open>Data model\<close>

record Dashboard =
  Client :: string
  Addr :: string
  Key :: string

definition New :: "string \<Rightarrow> string \<Rightarrow> string \<Rightarrow> Dashboard" where
  "New client addr key = \<lparr>Client = client, Addr = addr, Key = key\<rparr>"

text \<open>
  The entity records. A field name that several Go structs share carries the struct's
  name in front, since an Isabelle theory has one name space for record fields. A Go
  slice (\<^verbatim>\<open>[]byte\<close>, \<^verbatim>\<open>[]string\<close>, \<^verbatim>\<open>[]*BugReport\<close>) is nil (\<open>None\<close>) or a sequence, which may be
  empty; a pointer is nil (\<open>None\<close>) or points to a value.
\<close>

record Build =
  Build_Manager :: string
  Build_ID :: string
  Build_SyzkallerCommit :: string
  Build_CompilerID :: string
  Build_KernelRepo :: string
  Build_KernelBranch :: string
  Build_KernelCommit :: string
  Build_KernelConfig :: "bytes option"

record Crash =
  Crash_BuildID :: string
  Crash_Title :: string
  Crash_Maintainers :: "string list option"
  Crash_Log :: "bytes option"
  Crash_Report :: "bytes option"
  Crash_ReproOpts :: "bytes option"
  Crash_ReproSyz :: "bytes option"
  Crash_ReproC :: "bytes option"

record FailedRepro =
  FailedRepro_Manager :: string
  FailedRepro_BuildID :: string
  FailedRepro_Title :: string

record LogEntry =
  Name :: string
  Text :: string

record BugReport =
  BugReport_Config :: "bytes option"
  BugReport_ID :: string
  BugReport_Title :: string
  BugReport_Maintainers :: "string list option"
  BugReport_CompilerID :: string
  BugReport_KernelRepo :: string
  BugReport_KernelBranch :: string
  BugReport_KernelCommit :: string
  BugReport_Log :: "bytes option"
  BugReport_Report :: "bytes option"
  BugReport_KernelConfig :: "bytes option"
  BugReport_ReproC :: "bytes option"
  BugReport_ReproSyz :: "bytes option"

text \<open>\<^verbatim>\<open>BugStatus\<close> and \<^verbatim>\<open>ReproLevel\<close> are Go \<^verbatim>\<open>int\<close>s with named constants (\<^verbatim>\<open>iota\<close>).\<close>

type_synonym BugStatus = int
type_synonym ReproLevel = int

definition BugStatusOpen :: BugStatus where "BugStatusOpen = 0"
definition BugStatusUpstream :: BugStatus where "BugStatusUpstream = 1"
definition BugStatusInvalid :: BugStatus where "BugStatusInvalid = 2"

definition ReproLevelNone :: ReproLevel where "ReproLevelNone = 0"
definition ReproLevelSyz :: ReproLevel where "ReproLevelSyz = 1"

record BugUpdate =
  BugUpdate_ID :: string
  Status :: BugStatus
  ReproLevel :: ReproLevel
  DupOf :: string

record PollRequest =
  Type :: string

record PollResponse =
  Reports :: "BugReport option list option"

subsection \<open>The HTTP values \<^verbatim>\<open>Query\<close> touches\<close>

text \<open>
  Of \<^verbatim>\<open>*http.Request\<close>, \<^verbatim>\<open>Query\<close> only sets header fields; the constructor decides the
  rest. \<^verbatim>\<open>http.Header\<close> is a \<^verbatim>\<open>map[string][]string\<close>. A nil \<^verbatim>\<open>io.Reader\<close> body is \<open>None\<close>.
\<close>

type_synonym Header = "string \<rightharpoonup> string list"

record Request =
  Method :: string
  URL :: string
  Body :: "bytes option"
  Header :: Header

definition Header_Set :: "Request \<Rightarrow> string \<Rightarrow> string \<Rightarrow> Request" where
  "Header_Set r k v = r\<lparr>Header := (Header r)(k \<mapsto> [v])\<rparr>"

text \<open>
  The body of a response is a stream: the bytes it yields, then end of file (\<open>None\<close>) or
  a read error. \<^verbatim>\<open>ioutil.ReadAll\<close> returns the bytes read so far together with the error.
\<close>

record ReadCloser =
  content :: bytes
  fault :: "error option"

definition ioutil_ReadAll :: "ReadCloser \<Rightarrow> bytes \<times> error option" where
  "ioutil_ReadAll b = (content b, fault b)"

record Response =
  Status_line :: string
  StatusCode :: int
  RespBody :: ReadCloser

definition StatusOK :: int where
  "StatusOK = 200"

type_synonym RequestCtor = "string \<Rightarrow> string \<Rightarrow> bytes option \<Rightarrow> error + Request"
type_synonym RequestDoer = "Request \<Rightarrow> error + Response"

subsection \<open>The standard library \<^verbatim>\<open>Query\<close> calls\<close>

text \<open>
  \<^verbatim>\<open>encoding/json\<close> and \<^verbatim>\<open>compress/gzip\<close> are not part of the repository: they are
  parameters of the model. \<open>json_Marshal\<close> is \<^verbatim>\<open>json.Marshal\<close> on the request value.
  \<open>gzip_Write\<close> and \<open>gzip_Close\<close> are the errors of \<^verbatim>\<open>gz.Write(data)\<close> and \<^verbatim>\<open>gz.Close()\<close>,
  and \<open>gzip_bytes data\<close> is what the buffer under the gzip writer holds once \<open>data\<close> has
  been written and the writer closed. \<open>json_Decode\<close> is
  \<^verbatim>\<open>json.NewDecoder(body).Decode(reply)\<close>: it reads the body stream and the value \<^verbatim>\<open>reply\<close>
  points to, and gives the error and the value \<^verbatim>\<open>reply\<close> points to afterwards.
\<close>

record ('q, 'r) golib =
  json_Marshal :: "'q \<Rightarrow> error + bytes"
  gzip_Write :: "bytes \<Rightarrow> error option"
  gzip_Close :: "bytes \<Rightarrow> error option"
  gzip_bytes :: "bytes \<Rightarrow> bytes"
  json_Decode :: "ReadCloser \<Rightarrow> 'r \<Rightarrow> error option \<times> 'r"

subsubsection \<open>\<^verbatim>\<open>net/url\<close>: \<^verbatim>\<open>Values\<close>, \<^verbatim>\<open>Add\<close>, \<^verbatim>\<open>Encode\<close>, \<^verbatim>\<open>QueryEscape\<close>\<close>

text \<open>
  \<^verbatim>\<open>url.Values\<close> is a \<^verbatim>\<open>map[string][]string\<close>, kept here as an association list with
  distinct keys. \<^verbatim>\<open>Add\<close> appends a value to the key's list. \<^verbatim>\<open>Encode\<close> walks the keys in
  sorted order and writes \<^verbatim>\<open>key=value\<close> for each value, escaped, with \<^verbatim>\<open>&\<close> between them.
  \<^verbatim>\<open>QueryEscape\<close> keeps letters, digits and \<^verbatim>\<open>-_.~\<close>, writes a space as \<^verbatim>\<open>+\<close> and
  every other byte as \<^verbatim>\<open>%XX\<close> in upper-case hexadecimal.
\<close>

type_synonym Values = "(string \<times> string list) list"

definition Values_Add :: "Values \<Rightarrow> string \<Rightarrow> string \<Rightarrow> Values" where
  "Values_Add vs k v =
     AList.update k ((case map_of vs k of None \<Rightarrow> [] | Some xs \<Rightarrow> xs) @ [v]) vs"

definition upperhex :: "nat \<Rightarrow> char" where
  "upperhex n = ''0123456789ABCDEF'' ! n"

definition unreserved :: "char \<Rightarrow> bool" where
  "unreserved c \<longleftrightarrow>
     (CHR ''a'' \<le> c \<and> c \<le> CHR ''z'') \<or> (CHR ''A'' \<le> c \<and> c \<le> CHR ''Z'') \<or>
     (CHR ''0'' \<le> c \<and> c \<le> CHR ''9'') \<or> c \<in> set ''-_.~''"

definition escape_byte :: "char \<Rightarrow> string" where
  "escape_byte c =
     (if unreserved c then [c]
      else if c = CHR '' '' then ''+''
      else [CHR ''%'', upperhex (of_char c div 16), upperhex (of_char c mod 16)])"

definition QueryEscape :: "string \<Rightarrow> string" where
  "QueryEscape s = concat (map escape_byte s)"

fun join_amp :: "string list \<Rightarrow> string" where
  "join_amp [] = []"
| "join_amp [x] = x"
| "join_amp (x # y # ys) = x @ ''&'' @ join_amp (y # ys)"

definition Values_Encode :: "Values \<Rightarrow> string" where
  "Values_Encode vs =
     join_amp (concat (map
       (\<lambda>k. map (\<lambda>v. QueryEscape k @ ''='' @ QueryEscape v)
                (case map_of vs k of None \<Rightarrow> [] | Some xs \<Rightarrow> xs))
       (sort (map fst vs))))"

subsection \<open>The transport function \<^verbatim>\<open>Query\<close>\<close>

text \<open>
  What a call does to the outside is kept as the list of its events, in order: the call
  of the request constructor with its three arguments, the request handed to the doer,
  and the operations on the response body. What a call returns is the error; the value
  the caller's \<^verbatim>\<open>reply\<close> points to afterwards is returned with it (\<open>None\<close>: a nil \<^verbatim>\<open>reply\<close>).
\<close>

datatype event =
    is_NewRequest: NewRequest string string "bytes option"
  | is_Do: Do Request
  | ReadAll
  | Decode
  | Close

record 'r outcome =
  err :: "error option"
  reply_after :: "'r option"
  events :: "event list"

definition Query ::
  "('q, 'r) golib \<Rightarrow> string \<Rightarrow> string \<Rightarrow> string \<Rightarrow> string \<Rightarrow> RequestCtor \<Rightarrow> RequestDoer \<Rightarrow>
     'q option \<Rightarrow> 'r option \<Rightarrow> 'r outcome" where
  "Query L client addr key method ctor doer req reply =
    (let vals = Values_Add (Values_Add (Values_Add [] ''client'' client) ''key'' key)
                  ''method'' method
     in
     case (case req of
             None \<Rightarrow> Inr (None, False)
           | Some q \<Rightarrow>
               (case json_Marshal L q of
                  Inl e \<Rightarrow> Inl (''failed to marshal request: '' @ e)
                | Inr data \<Rightarrow>
                    if length data < 100 \<or> addr = [] \<or> prefix ''http://localhost:'' addr
                    then Inr (Some data, False)
                    else (case gzip_Write L data of
                            Some e \<Rightarrow> Inl e
                          | None \<Rightarrow>
                              (case gzip_Close L data of
                                 Some e \<Rightarrow> Inl e
                               | None \<Rightarrow> Inr (Some (gzip_bytes L data), True))))) of
       Inl e \<Rightarrow> \<lparr>err = Some e, reply_after = reply, events = []\<rparr>
     | Inr (body, gzipped) \<Rightarrow>
         (let url = addr @ ''/api?'' @ Values_Encode vals;
              ev1 = [NewRequest ''POST'' url body]
          in
          case ctor ''POST'' url body of
            Inl e \<Rightarrow> \<lparr>err = Some e, reply_after = reply, events = ev1\<rparr>
          | Inr r0 \<Rightarrow>
              (let r = (if body \<noteq> None
                        then (let r1 = Header_Set r0 ''Content-Type'' ''application/json''
                              in if gzipped then Header_Set r1 ''Content-Encoding'' ''gzip''
                                 else r1)
                        else r0);
                   ev2 = ev1 @ [Do r]
               in
               case doer r of
                 Inl e \<Rightarrow>
                   \<lparr>err = Some (''http request failed: '' @ e), reply_after = reply,
                    events = ev2\<rparr>
               | Inr resp \<Rightarrow>
                   if StatusCode resp \<noteq> StatusOK
                   then (case ioutil_ReadAll (RespBody resp) of
                           (data, _) \<Rightarrow>
                             \<lparr>err = Some (''request failed with '' @ Status_line resp @ '': ''
                                           @ data),
                              reply_after = reply, events = ev2 @ [ReadAll, Close]\<rparr>)
                   else (case reply of
                           None \<Rightarrow> \<lparr>err = None, reply_after = None, events = ev2 @ [Close]\<rparr>
                         | Some v \<Rightarrow>
                             (case json_Decode L (RespBody resp) v of
                                (Some e, v') \<Rightarrow>
                                  \<lparr>err = Some (''failed to unmarshal response: '' @ e),
                                   reply_after = Some v', events = ev2 @ [Decode, Close]\<rparr>
                              | (None, v') \<Rightarrow>
                                  \<lparr>err = None, reply_after = Some v',
                                   events = ev2 @ [Decode, Close]\<rparr>)))))"

text \<open>
  The three steps of \<^verbatim>\<open>Query\<close> before the request is handed over, named so that the
  lemmas below can speak of them: the body and the \<^verbatim>\<open>gzipped\<close> flag after the
  \<^verbatim>\<open>if req != nil\<close> block, the URL, and the request after the \<^verbatim>\<open>if body != nil\<close> block.
\<close>

definition payload_body ::
  "('q, 'r) golib \<Rightarrow> string \<Rightarrow> 'q option \<Rightarrow> error + (bytes option \<times> bool)" where
  "payload_body L addr req =
     (case req of
        None \<Rightarrow> Inr (None, False)
      | Some q \<Rightarrow>
          (case json_Marshal L q of
             Inl e \<Rightarrow> Inl (''failed to marshal request: '' @ e)
           | Inr data \<Rightarrow>
               if length data < 100 \<or> addr = [] \<or> prefix ''http://localhost:'' addr
               then Inr (Some data, False)
               else (case gzip_Write L data of
                       Some e \<Rightarrow> Inl e
                     | None \<Rightarrow>
                         (case gzip_Close L data of
                            Some e \<Rightarrow> Inl e
                          | None \<Rightarrow> Inr (Some (gzip_bytes L data), True)))))"

definition api_url :: "string \<Rightarrow> string \<Rightarrow> string \<Rightarrow> string \<Rightarrow> string" where
  "api_url addr client key method =
     addr @ ''/api?'' @
     Values_Encode
       (Values_Add (Values_Add (Values_Add [] ''client'' client) ''key'' key)
          ''method'' method)"

definition with_headers :: "bytes option \<Rightarrow> bool \<Rightarrow> Request \<Rightarrow> Request" where
  "with_headers body gzipped r0 =
     (if body \<noteq> None
      then (let r1 = Header_Set r0 ''Content-Type'' ''application/json''
            in if gzipped then Header_Set r1 ''Content-Encoding'' ''gzip'' else r1)
      else r0)"

subsection \<open>The client facade \<^verbatim>\<open>Dashboard\<close>\<close>

text \<open>
  The request value of a facade method travels as an \<^verbatim>\<open>interface{}\<close> holding a pointer to
  one of the entity records: \<open>payload\<close> is the sum of these pointer types.
  \<^verbatim>\<open>http.NewRequest\<close>, \<^verbatim>\<open>http.DefaultClient.Do\<close> and \<^verbatim>\<open>fmt.Sprintf\<close> belong to the Go
  runtime: they are the fields of \<open>runtime\<close>, and \<open>'a\<close> is the type of the values a
  variadic \<^verbatim>\<open>args ...interface{}\<close> holds.
\<close>

datatype payload =
    PBuild "Build option"
  | PCrash "Crash option"
  | PFailedRepro "FailedRepro option"
  | PLogEntry "LogEntry option"
  | PBugReport "BugReport option"
  | PBugUpdate "BugUpdate option"
  | PPollRequest "PollRequest option"
  | PPollResponse "PollResponse option"

record 'a runtime =
  http_NewRequest :: RequestCtor
  http_DefaultClient_Do :: RequestDoer
  fmt_Sprintf :: "string \<Rightarrow> 'a list \<Rightarrow> string"

definition query ::
  "(payload, 'r) golib \<Rightarrow> 'a runtime \<Rightarrow> Dashboard \<Rightarrow> string \<Rightarrow> payload option \<Rightarrow> 'r option \<Rightarrow>
     'r outcome" where
  "query L R dash method req reply =
     Query L (Client dash) (Addr dash) (Key dash) method
       (http_NewRequest R) (http_DefaultClient_Do R) req reply"

definition UploadBuild ::
  "(payload, 'r) golib \<Rightarrow> 'a runtime \<Rightarrow> Dashboard \<Rightarrow> Build option \<Rightarrow> 'r outcome" where
  "UploadBuild L R dash build = query L R dash ''upload_build'' (Some (PBuild build)) None"

definition ReportCrash ::
  "(payload, 'r) golib \<Rightarrow> 'a runtime \<Rightarrow> Dashboard \<Rightarrow> Crash option \<Rightarrow> 'r outcome" where
  "ReportCrash L R dash crash = query L R dash ''report_crash'' (Some (PCrash crash)) None"

definition ReportFailedRepro ::
  "(payload, 'r) golib \<Rightarrow> 'a runtime \<Rightarrow> Dashboard \<Rightarrow> FailedRepro option \<Rightarrow> 'r outcome" where
  "ReportFailedRepro L R dash repro =
     query L R dash ''report_failed_repro'' (Some (PFailedRepro repro)) None"

text \<open>
  \<^verbatim>\<open>LogError\<close> has no result: what is left of the call is its events. The outcome of
  \<^verbatim>\<open>dash.query\<close>, its error included, is dropped.
\<close>

definition LogError ::
  "(payload, 'r) golib \<Rightarrow> 'a runtime \<Rightarrow> Dashboard \<Rightarrow> string \<Rightarrow> string \<Rightarrow> 'a list \<Rightarrow> event list"
  where
  "LogError L R dash name msg args =
     (let req = \<lparr>Name = name, Text = fmt_Sprintf R msg args\<rparr>;
          dropped = query L R dash ''log_error'' (Some (PLogEntry (Some req)))
                      (None :: 'r option)
      in events dropped)"

text \<open>
  The method set of \<^verbatim>\<open>*Dashboard\<close>, as a datatype of calls (one constructor for each
  method the source declares, with the method's arguments), so that a statement can range
  over every operation of the facade. \<open>invoke\<close> runs a call; \<open>call_method\<close> and
  \<open>call_request\<close> are the method name and the request value the call hands to
  \<^verbatim>\<open>dash.query\<close>.
\<close>

datatype 'a call =
    Call_UploadBuild "Build option"
  | Call_ReportCrash "Crash option"
  | Call_ReportFailedRepro "FailedRepro option"
  | Call_LogError string string "'a list"

fun invoke ::
  "(payload, 'r) golib \<Rightarrow> 'a runtime \<Rightarrow> Dashboard \<Rightarrow> 'a call \<Rightarrow> error option \<times> event list"
  where
  "invoke L R dash (Call_UploadBuild build) =
     (let out = UploadBuild L R dash build :: 'r outcome in (err out, events out))"
| "invoke L R dash (Call_ReportCrash crash) =
     (let out = ReportCrash L R dash crash :: 'r outcome in (err out, events out))"
| "invoke L R dash (Call_ReportFailedRepro repro) =
     (let out = ReportFailedRepro L R dash repro :: 'r outcome in (err out, events out))"
| "invoke L R dash (Call_LogError name msg args) = (None, LogError L R dash name msg args)"

fun call_method :: "'a call \<Rightarrow> string" where
  "call_method (Call_UploadBuild _) = ''upload_build''"
| "call_method (Call_ReportCrash _) = ''report_crash''"
| "call_method (Call_ReportFailedRepro _) = ''report_failed_repro''"
| "call_method (Call_LogError _ _ _) = ''log_error''"

fun call_request :: "'a runtime \<Rightarrow> 'a call \<Rightarrow> payload" where
  "call_request R (Call_UploadBuild build) = PBuild build"
| "call_request R (Call_ReportCrash crash) = PCrash crash"
| "call_request R (Call_ReportFailedRepro repro) = PFailedRepro repro"
| "call_request R (Call_LogError name msg args) =
     PLogEntry (Some \<lparr>Name = name, Text = fmt_Sprintf R msg args\<rparr>)"

subsection \<open>The causes of an error of \<^verbatim>\<open>Query\<close>\<close>

text \<open>
  Each cause is a condition on what the call was given and on what it did. The first,
  fourth, fifth and sixth are the specification's \<^verbatim>\<open>EncodingError\<close>, \<^verbatim>\<open>TransportError\<close>,
  \<^verbatim>\<open>RemoteError\<close> and \<^verbatim>\<open>DecodingError\<close>. The second and the third are the two other places
  where the source returns an error: the gzip writer, and the request constructor.
\<close>

definition encoding_failure :: "('q, 'r) golib \<Rightarrow> 'q option \<Rightarrow> bool" where
  "encoding_failure L req =
     (case req of None \<Rightarrow> False | Some q \<Rightarrow> isl (json_Marshal L q))"

definition compression_failure :: "('q, 'r) golib \<Rightarrow> string \<Rightarrow> 'q option \<Rightarrow> bool" where
  "compression_failure L addr req =
     (case req of
        None \<Rightarrow> False
      | Some q \<Rightarrow>
          (case json_Marshal L q of
             Inl _ \<Rightarrow> False
           | Inr data \<Rightarrow>
               \<not> (length data < 100 \<or> addr = [] \<or> prefix ''http://localhost:'' addr) \<and>
               (gzip_Write L data \<noteq> None \<or> gzip_Close L data \<noteq> None)))"

definition construction_failure :: "RequestCtor \<Rightarrow> 'r outcome \<Rightarrow> bool" where
  "construction_failure ctor out =
     list_ex (\<lambda>ev. case ev of NewRequest m u b \<Rightarrow> isl (ctor m u b) | _ \<Rightarrow> False)
       (events out)"

definition transport_failure :: "RequestDoer \<Rightarrow> 'r outcome \<Rightarrow> bool" where
  "transport_failure doer out =
     list_ex (\<lambda>ev. case ev of Do r \<Rightarrow> isl (doer r) | _ \<Rightarrow> False) (events out)"

definition remote_failure :: "RequestDoer \<Rightarrow> 'r outcome \<Rightarrow> bool" where
  "remote_failure doer out =
     list_ex (\<lambda>ev. case ev of
                Do r \<Rightarrow> (case doer r of
                           Inl _ \<Rightarrow> False
                         | Inr resp \<Rightarrow> StatusCode resp \<noteq> StatusOK)
              | _ \<Rightarrow> False)
       (events out)"

definition decoding_failure ::
  "('q, 'r) golib \<Rightarrow> RequestDoer \<Rightarrow> 'r option \<Rightarrow> 'r outcome \<Rightarrow> bool" where
  "decoding_failure L doer reply out =
     list_ex (\<lambda>ev. case ev of
                Do r \<Rightarrow> (case doer r of
                           Inl _ \<Rightarrow> False
                         | Inr resp \<Rightarrow>
                             StatusCode resp = StatusOK \<and>
                             (case reply of
                                None \<Rightarrow> False
                              | Some v \<Rightarrow> fst (json_Decode L (RespBody resp) v) \<noteq> None))
              | _ \<Rightarrow> False)
       (events out)"

subsection \<open>Values for the examples\<close>

text \<open>
  Request values for the examples: a Go string, and a channel, which \<^verbatim>\<open>json.Marshal\<close>
  rejects. \<open>sample_lib\<close> marshals a string without special characters between quotes,
  decodes such a literal into a string reply, and stands for gzip by a frame of two bytes
  in front of the data.
\<close>

datatype sample = Str string | Chan

definition sample_Marshal :: "sample \<Rightarrow> error + bytes" where
  "sample_Marshal q =
     (case q of
        Str s \<Rightarrow> Inr ([CHR 0x22] @ s @ [CHR 0x22])
      | Chan \<Rightarrow> Inl ''json: unsupported type: chan int'')"

definition sample_Decode :: "ReadCloser \<Rightarrow> string \<Rightarrow> error option \<times> string" where
  "sample_Decode b v =
     (let c = content b in
      if 2 \<le> length c \<and> hd c = CHR 0x22 \<and> last c = CHR 0x22
      then (None, butlast (tl c))
      else (Some (case fault b of None \<Rightarrow> ''unexpected EOF'' | Some e \<Rightarrow> e), v))"

definition sample_lib :: "(sample, string) golib" where
  "sample_lib =
     \<lparr>json_Marshal = sample_Marshal,
      gzip_Write = (\<lambda>data. None),
      gzip_Close = (\<lambda>data. None),
      gzip_bytes = (\<lambda>data. [CHR 0x1f, CHR 0x8b] @ data),
      json_Decode = sample_Decode\<rparr>"

text \<open>
  A request constructor that does what \<^verbatim>\<open>http.NewRequest\<close> does with a URL that has no
  scheme in front of its first colon (an error) and with any other URL (a request with
  the method, the URL and the body, and no header fields).
\<close>

definition sample_NewRequest :: RequestCtor where
  "sample_NewRequest m u b =
     (if prefix '':'' u then Inl (''parse '' @ u @ '': missing protocol scheme'')
      else Inr \<lparr>Method = m, URL = u, Body = b, Header = Map.empty\<rparr>)"

text \<open>A doer that answers every request with one response, and one that never connects.\<close>

definition respond :: "int \<Rightarrow> string \<Rightarrow> ReadCloser \<Rightarrow> RequestDoer" where
  "respond code status b r = Inr \<lparr>Status_line = status, StatusCode = code, RespBody = b\<rparr>"

definition refuse :: RequestDoer where
  "refuse r = Inl ''dial tcp 127.0.0.1:80: connection refused''"

text \<open>
  A library for the facade examples: a log entry is marshalled as an object of its two
  fields (the examples use no character that JSON escapes), every other payload as
  \<^verbatim>\<open>null\<close>. \<open>sample_runtime\<close> never connects, and its \<^verbatim>\<open>Sprintf\<close> gives the template back (the
  examples pass no arguments).
\<close>

definition sample_Marshal_payload :: "payload \<Rightarrow> error + bytes" where
  \<open>sample_Marshal_payload p =
     (case p of
        PLogEntry (Some e) \<Rightarrow> Inr (''{"Name":"'' @ Name e @ ''","Text":"'' @ Text e @ ''"}'')
      | _ \<Rightarrow> Inr ''null'')\<close>

definition facade_lib :: "(payload, unit) golib" where
  "facade_lib =
     \<lparr>json_Marshal = sample_Marshal_payload,
      gzip_Write = (\<lambda>data. None),
      gzip_Close = (\<lambda>data. None),
      gzip_bytes = (\<lambda>data. [CHR 0x1f, CHR 0x8b] @ data),
      json_Decode = (\<lambda>b v. (None, v))\<rparr>"

definition sample_runtime :: "unit runtime" where
  "sample_runtime =
     \<lparr>http_NewRequest = sample_NewRequest,
      http_DefaultClient_Do = refuse,
      fmt_Sprintf = (\<lambda>msg args. msg)\<rparr>"

text \<open>
  A decoder for a \<^verbatim>\<open>*BugUpdate\<close> reply on one document, whose \<^verbatim>\<open>Status\<close> member is a
  string where the field is an integer. \<^verbatim>\<open>encoding/json\<close> documents what it does then: it
  skips that member, completes the rest as best it can, and returns an
  \<^verbatim>\<open>UnmarshalTypeError\<close> for the first such member. The \<^verbatim>\<open>ID\<close> member before it is stored.
\<close>

definition mismatch_doc :: bytes where
  \<open>mismatch_doc = ''{"ID":"bug1","Status":"open"}''\<close>

definition mismatch_Decode :: "ReadCloser \<Rightarrow> BugUpdate \<Rightarrow> error option \<times> BugUpdate" where
  "mismatch_Decode b v =
     (if content b = mismatch_doc
      then (Some (''json: cannot unmarshal string into Go struct field BugUpdate.Status ''
                  @ ''of type dashapi.BugStatus''),
            v\<lparr>BugUpdate_ID := ''bug1''\<rparr>)
      else (Some ''unexpected end of JSON input'', v))"

definition mismatch_lib :: "(sample, BugUpdate) golib" where
  "mismatch_lib =
     \<lparr>json_Marshal = sample_Marshal,
      gzip_Write = (\<lambda>data. None),
      gzip_Close = (\<lambda>data. None),
      gzip_bytes = (\<lambda>data. [CHR 0x1f, CHR 0x8b] @ data),
      json_Decode = mismatch_Decode\<rparr>"

definition no_update :: BugUpdate where
  "no_update = \<lparr>BugUpdate_ID = [], Status = 0, ReproLevel = 0, DupOf = []\<rparr>"

text \<open>
  A decoder for a \<^verbatim>\<open>*PollResponse\<close> reply on a body that begins with the empty object.
  \<^verbatim>\<open>Decoder.Decode\<close> reads one JSON value from the stream and leaves what follows it
  unread; the empty object has no member, so no field of the reply is stored and the
  error is nil. The examples use no other body but the empty one, on which \<^verbatim>\<open>Decode\<close>
  returns \<^verbatim>\<open>io.EOF\<close>.
\<close>

definition garbage_doc :: bytes where
  \<open>garbage_doc = ''{}<html>not json</html>''\<close>

definition first_value_Decode :: "ReadCloser \<Rightarrow> PollResponse \<Rightarrow> error option \<times> PollResponse" where
  "first_value_Decode b v =
     (if prefix ''{}'' (content b) then (None, v) else (Some ''EOF'', v))"

definition first_value_lib :: "(sample, PollResponse) golib" where
  "first_value_lib =
     \<lparr>json_Marshal = sample_Marshal,
      gzip_Write = (\<lambda>data. None),
      gzip_Close = (\<lambda>data. None),
      gzip_bytes = (\<lambda>data. [CHR 0x1f, CHR 0x8b] @ data),
      json_Decode = first_value_Decode\<rparr>"

definition no_reports :: PollResponse where
  "no_reports = \<lparr>Reports = None\<rparr>"

subsection \<open>\<^verbatim>\<open>encoding/json\<close> on the entity records\<close>

text \<open>
  \<^verbatim>\<open>encoding/json\<close> is not part of the repository. For the round trip of the entity records
  through \<^verbatim>\<open>json.Marshal\<close> and \<^verbatim>\<open>json.Unmarshal\<close>, this section follows the documentation
  of the package on the types the records are made of: a string is written as a JSON
  string coerced to valid UTF-8, a \<^verbatim>\<open>[]byte\<close> as a base64 string, an \<^verbatim>\<open>int\<close> as a number, a nil
  slice or pointer as \<^verbatim>\<open>null\<close>, any other slice as an array, and a struct as an object with
  one member for each field, under the field's name, in the order of the fields.
\<close>

subsubsection \<open>UTF-8\<close>

definition code :: "char \<Rightarrow> nat" where
  "code c = of_char c"

definition between :: "nat \<Rightarrow> nat \<Rightarrow> char \<Rightarrow> bool" where
  "between lo hi c \<longleftrightarrow> lo \<le> code c \<and> code c \<le> hi"

text \<open>
  utf8.DecodeRune on a first byte of 0x80 or more: the size of the well-formed sequence of
  two, three or four bytes in front of the string, or 0 when there is none.
\<close>

definition seq2 :: "string \<Rightarrow> bool" where
  "seq2 s \<longleftrightarrow> 2 \<le> length s \<and> between 0xC2 0xDF (s ! 0) \<and> between 0x80 0xBF (s ! 1)"

definition seq3 :: "string \<Rightarrow> bool" where
  "seq3 s \<longleftrightarrow> 3 \<le> length s \<and> between 0xE0 0xEF (s ! 0)
     \<and> between (if code (s ! 0) = 0xE0 then 0xA0 else 0x80)
          (if code (s ! 0) = 0xED then 0x9F else 0xBF) (s ! 1)
     \<and> between 0x80 0xBF (s ! 2)"

definition seq4 :: "string \<Rightarrow> bool" where
  "seq4 s \<longleftrightarrow> 4 \<le> length s \<and> between 0xF0 0xF4 (s ! 0)
     \<and> between (if code (s ! 0) = 0xF0 then 0x90 else 0x80)
          (if code (s ! 0) = 0xF4 then 0x8F else 0xBF) (s ! 1)
     \<and> between 0x80 0xBF (s ! 2) \<and> between 0x80 0xBF (s ! 3)"

definition utf8_size :: "string \<Rightarrow> nat" where
  "utf8_size s = (if seq2 s then 2 else if seq3 s then 3 else if seq4 s then 4 else 0)"

fun valid_utf8 :: "string \<Rightarrow> bool" where
  "valid_utf8 [] = True"
| "valid_utf8 (c # cs) =
     (if code c < 0x80 then valid_utf8 cs
      else utf8_size (c # cs) \<noteq> 0 \<and> valid_utf8 (drop (utf8_size (c # cs) - 1) cs))"

subsubsection \<open>Writing a string\<close>

definition lowerhex :: "nat \<Rightarrow> char" where
  "lowerhex n = ''0123456789abcdef'' ! n"

text \<open>
  encodeState.string with escapeHTML, between the quotes: \<open>escape_ascii\<close> is what it writes
  for a byte under 0x80.
\<close>

definition u_escape :: "string \<Rightarrow> string" where
  "u_escape h = [CHR 0x5C, CHR ''u''] @ h"

definition escape_ascii :: "char \<Rightarrow> string" where
  "escape_ascii c =
     (if 0x20 \<le> code c \<and> c \<noteq> CHR 0x5C \<and> c \<noteq> CHR 0x22
         \<and> c \<noteq> CHR ''<'' \<and> c \<noteq> CHR ''>'' \<and> c \<noteq> CHR ''&''
      then [c]
      else if c = CHR 0x5C \<or> c = CHR 0x22 then [CHR 0x5C, c]
      else if c = CHR 0x0A then [CHR 0x5C, CHR ''n'']
      else if c = CHR 0x0D then [CHR 0x5C, CHR ''r'']
      else if c = CHR 0x09 then [CHR 0x5C, CHR ''t'']
      else u_escape [CHR ''0'', CHR ''0'', lowerhex (code c div 16), lowerhex (code c mod 16)])"



subsubsection \<open>Reading a string\<close>









subsubsection \<open>Numbers\<close>

definition is_digit :: "char \<Rightarrow> bool" where
  "is_digit c = between 0x30 0x39 c"

text \<open>strconv.AppendInt in base 10\<close>

fun digits :: "nat \<Rightarrow> string" where
  digits_rec [simp del]: "digits n =
     (if n < 10 then [char_of (0x30 + n)] else digits (n div 10) @ [char_of (0x30 + n mod 10)])"

definition format_int :: "int \<Rightarrow> string" where
  "format_int i = (if i < 0 then CHR ''-'' # digits (nat (- i)) else digits (nat i))"

text \<open>strconv.ParseInt in base 10 with 64 bits\<close>

definition digits_value :: "string \<Rightarrow> nat" where
  "digits_value d = foldl (\<lambda>a c. 10 * a + (code c - 0x30)) 0 d"







subsubsection \<open>Base64\<close>

text \<open>The alphabet of base64.StdEncoding: A to Z, a to z, 0 to 9, plus and slash.\<close>

definition b64_char :: "nat \<Rightarrow> char" where
  "b64_char n =
     (if n < 26 then char_of (0x41 + n)
      else if n < 52 then char_of (0x61 + (n - 26))
      else if n < 62 then char_of (0x30 + (n - 52))
      else if n = 62 then CHR ''+''
      else CHR ''/'')"

fun b64_encode :: "bytes \<Rightarrow> string" where
  "b64_encode (a # b # c # r) =
     [b64_char (code a div 4),
      b64_char (code a mod 4 * 16 + code b div 16),
      b64_char (code b mod 16 * 4 + code c div 64),
      b64_char (code c mod 64)] @ b64_encode r"
| "b64_encode [a, b] =
     [b64_char (code a div 4),
      b64_char (code a mod 4 * 16 + code b div 16),
      b64_char (code b mod 16 * 4),
      CHR ''='']"
| "b64_encode [a] =
     [b64_char (code a div 4), b64_char (code a mod 4 * 16), CHR ''='', CHR ''='']"
| "b64_encode [] = []"

definition b64_value :: "char \<Rightarrow> nat option" where
  "b64_value c =
     (if between 0x41 0x5A c then Some (code c - 0x41)
      else if between 0x61 0x7A c then Some (code c - 0x61 + 26)
      else if between 0x30 0x39 c then Some (code c - 0x30 + 52)
      else if c = CHR ''+'' then Some 62
      else if c = CHR ''/'' then Some 63
      else None)"

fun b64_groups :: "string \<Rightarrow> bytes option" where
  "b64_groups [] = Some []"
| "b64_groups [w, x, y, z] =
     (case (b64_value w, b64_value x) of
        (Some i, Some j) \<Rightarrow>
          if y = CHR ''='' then
            (if z = CHR ''='' then Some [char_of (i * 4 + j div 16)] else None)
          else
            (case b64_value y of
               None \<Rightarrow> None
             | Some k \<Rightarrow>
                 if z = CHR ''='' then
                   Some [char_of (i * 4 + j div 16), char_of (j mod 16 * 16 + k div 4)]
                 else
                   (case b64_value z of
                      None \<Rightarrow> None
                    | Some l \<Rightarrow>
                        Some [char_of (i * 4 + j div 16), char_of (j mod 16 * 16 + k div 4),
                              char_of (k mod 4 * 64 + l)]))
      | _ \<Rightarrow> None)"
| "b64_groups (w # x # y # z # r) =
     (case (b64_value w, b64_value x, b64_value y, b64_value z) of
        (Some i, Some j, Some k, Some l) \<Rightarrow>
          map_option
            ((@) [char_of (i * 4 + j div 16), char_of (j mod 16 * 16 + k div 4),
                  char_of (k mod 4 * 64 + l)])
            (b64_groups r)
      | _ \<Rightarrow> None)"
| "b64_groups _ = None"

definition b64_decode :: "string \<Rightarrow> bytes option" where
  "b64_decode s = b64_groups (filter (\<lambda>c. c \<noteq> CHR 0x0A \<and> c \<noteq> CHR 0x0D) s)"

subsubsection \<open>JSON texts\<close>

text \<open>
  A JSON value as a tree, the compact text \<^verbatim>\<open>json.Marshal\<close> writes for it, and the parser.
  A number keeps its text.
\<close>

datatype json =
    JNull
  | JBool bool
  | JNumber string
  | JString string
  | JArray "json list"
  | JObject "(string \<times> json) list"



definition is_space :: "char \<Rightarrow> bool" where
  "is_space c \<longleftrightarrow> c = CHR '' '' \<or> c = CHR 0x09 \<or> c = CHR 0x0D \<or> c = CHR 0x0A"




subsubsection \<open>Decoding into Go values\<close>

text \<open>
  A decoder takes a JSON value and what the target holds, and gives the error and what
  the target holds afterwards. \<^verbatim>\<open>null\<close> leaves a string, a number or a struct as it is and
  makes a slice or a pointer nil. A value of the wrong kind leaves the target as it is
  and gives an \<^verbatim>\<open>UnmarshalTypeError\<close> with the description of the value and the name of the
  Go type. Of the errors only the kind is kept, not the text.
\<close>

datatype json_error =
    SyntaxError
  | UnmarshalTypeError string string
  | CorruptInputError

type_synonym 'a decoder = "json \<Rightarrow> 'a \<Rightarrow> json_error option \<times> 'a"

definition kind_of :: "json \<Rightarrow> string" where
  "kind_of x =
     (case x of
        JNull \<Rightarrow> ''null'' | JBool _ \<Rightarrow> ''bool'' | JNumber _ \<Rightarrow> ''number''
      | JString _ \<Rightarrow> ''string'' | JArray _ \<Rightarrow> ''array'' | JObject _ \<Rightarrow> ''object'')"

definition mismatch :: "json \<Rightarrow> string \<Rightarrow> json_error" where
  "mismatch x ty = UnmarshalTypeError (kind_of x) ty"

definition first_error :: "json_error option \<Rightarrow> json_error option \<Rightarrow> json_error option" where
  "first_error e e' = (case e of None \<Rightarrow> e' | Some _ \<Rightarrow> e)"

definition dec_string :: "string decoder" where
  "dec_string x old =
     (case x of
        JString s \<Rightarrow> (None, s)
      | JNull \<Rightarrow> (None, old)
      | _ \<Rightarrow> (Some (mismatch x ''string''), old))"


definition dec_uint8 :: "char decoder" where
  "dec_uint8 x old =
     (case x of
        JNumber n \<Rightarrow>
          if n \<noteq> [] \<and> list_all is_digit n \<and> digits_value n < 256
          then (None, char_of (digits_value n))
          else (Some (UnmarshalTypeError (''number '' @ n) ''uint8''), old)
      | JNull \<Rightarrow> (None, old)
      | _ \<Rightarrow> (Some (mismatch x ''uint8''), old))"

text \<open>
  The elements of an array go into a slice one by one: an element that the slice already
  has is decoded over, a new one starts from the zero value \<open>z\<close>.
\<close>

fun dec_elements ::
  "'a decoder \<Rightarrow> 'a \<Rightarrow> json list \<Rightarrow> 'a list \<Rightarrow> json_error option \<times> 'a list" where
  "dec_elements d z [] old = (None, [])"
| "dec_elements d z (x # xs) old =
     (case d x (case old of [] \<Rightarrow> z | a # _ \<Rightarrow> a) of
        (e, v) \<Rightarrow>
          (case dec_elements d z xs (tl old) of
             (e', vs) \<Rightarrow> (first_error e e', v # vs)))"

definition dec_slice :: "string \<Rightarrow> 'a decoder \<Rightarrow> 'a \<Rightarrow> ('a list option) decoder" where
  "dec_slice ty d z x old =
     (case x of
        JArray xs \<Rightarrow>
          (case dec_elements d z xs (case old of None \<Rightarrow> [] | Some l \<Rightarrow> l) of
             (e, vs) \<Rightarrow> (e, Some vs))
      | JNull \<Rightarrow> (None, None)
      | _ \<Rightarrow> (Some (mismatch x ty), old))"

definition dec_bytes :: "(bytes option) decoder" where
  "dec_bytes x old =
     (case x of
        JString s \<Rightarrow>
          (case b64_decode s of
             Some b \<Rightarrow> (None, Some b)
           | None \<Rightarrow> (Some CorruptInputError, old))
      | _ \<Rightarrow> dec_slice ''[]uint8'' dec_uint8 (CHR 0x00) x old)"








definition field :: "('a \<Rightarrow> 'f) \<Rightarrow> ('f \<Rightarrow> 'a \<Rightarrow> 'a) \<Rightarrow> 'f decoder \<Rightarrow> 'a decoder" where
  "field get put d x v = (case d x (get v) of (e, f) \<Rightarrow> (e, put f v))"

subsubsection \<open>The entity records as JSON\<close>

text \<open>
  For each record: its JSON value, the decoders of its fields by name, the zero value,
  and the condition under which the round trip holds, that its strings are valid UTF-8.
  \<open>go_int\<close> is the range of a Go \<^verbatim>\<open>int\<close> of 64 bits.
\<close>

definition enc_bytes :: "bytes option \<Rightarrow> json" where
  "enc_bytes b = (case b of None \<Rightarrow> JNull | Some x \<Rightarrow> JString (b64_encode x))"

definition enc_strings :: "string list option \<Rightarrow> json" where
  "enc_strings l = (case l of None \<Rightarrow> JNull | Some xs \<Rightarrow> JArray (map JString xs))"

definition enc_int :: "int \<Rightarrow> json" where
  "enc_int i = JNumber (format_int i)"



definition valid_strings :: "string list option \<Rightarrow> bool" where
  "valid_strings l = (case l of None \<Rightarrow> True | Some xs \<Rightarrow> list_all valid_utf8 xs)"





















definition BugReport_json :: "BugReport \<Rightarrow> json" where
  "BugReport_json v =
     JObject
       [(''Config'', enc_bytes (BugReport_Config v)),
        (''ID'', JString (BugReport_ID v)),
        (''Title'', JString (BugReport_Title v)),
        (''Maintainers'', enc_strings (BugReport_Maintainers v)),
        (''CompilerID'', JString (BugReport_CompilerID v)),
        (''KernelRepo'', JString (BugReport_KernelRepo v)),
        (''KernelBranch'', JString (BugReport_KernelBranch v)),
        (''KernelCommit'', JString (BugReport_KernelCommit v)),
        (''Log'', enc_bytes (BugReport_Log v)),
        (''Report'', enc_bytes (BugReport_Report v)),
        (''KernelConfig'', enc_bytes (BugReport_KernelConfig v)),
        (''ReproC'', enc_bytes (BugReport_ReproC v)),
        (''ReproSyz'', enc_bytes (BugReport_ReproSyz v))]"






















subsubsection \<open>Notions for the proof of the round trip\<close>

text \<open>
  What may follow a value inside an array or an object, or the end of the text; the
  trees \<open>print\<close> is one-to-one on; the first character of a value; and what the parser has
  to do with the text of a tree.
\<close>

definition delimited :: "string \<Rightarrow> bool" where
  "delimited r =
     (case r of [] \<Rightarrow> True | c # _ \<Rightarrow> c = CHR '','' \<or> c = CHR '']'' \<or> c = CHR ''}'')"

fun wf_json :: "json \<Rightarrow> bool" where
  "wf_json JNull = True"
| "wf_json (JBool b) = True"
| "wf_json (JNumber n) = (\<exists>i. n = format_int i)"
| "wf_json (JString s) = valid_utf8 s"
| "wf_json (JArray xs) = (\<forall>x \<in> set xs. wf_json x)"
| "wf_json (JObject ms) = (\<forall>m \<in> set ms. valid_utf8 (fst m) \<and> wf_json (snd m))"




section \<open>Properties\<close>

subsection \<open>The paths of \<^verbatim>\<open>Query\<close>\<close>

text \<open>
  One equation for each way through \<^verbatim>\<open>Query\<close>, and a case rule that covers every call
  with them.
\<close>

lemma Query_prep_fail:
  "payload_body L addr req = Inl e \<Longrightarrow>
   Query L client addr key meth ctor doer req reply = \<lparr>err = Some e, reply_after = reply, events = []\<rparr>"
  unfolding Query_def payload_body_def by (simp only: Let_def sum.case)

lemma Query_ctor_fail:
  "payload_body L addr req = Inr (body, gz) \<Longrightarrow> ctor ''POST'' (api_url addr client key meth) body = Inl e \<Longrightarrow>
   Query L client addr key meth ctor doer req reply =
     \<lparr>err = Some e, reply_after = reply, events = [NewRequest ''POST'' (api_url addr client key meth) body]\<rparr>"
  unfolding Query_def payload_body_def api_url_def by (simp only: Let_def sum.case prod.case)

lemma Query_doer_fail:
  "payload_body L addr req = Inr (body, gz) \<Longrightarrow> ctor ''POST'' (api_url addr client key meth) body = Inr r0 \<Longrightarrow>
   doer (with_headers body gz r0) = Inl e \<Longrightarrow>
   Query L client addr key meth ctor doer req reply =
     \<lparr>err = Some (''http request failed: '' @ e), reply_after = reply,
      events = [NewRequest ''POST'' (api_url addr client key meth) body, Do (with_headers body gz r0)]\<rparr>"
  unfolding Query_def payload_body_def api_url_def with_headers_def by (simp only: Let_def sum.case prod.case append.simps)

lemma Query_non200_eq:
  "payload_body L addr req = Inr (body, gz) \<Longrightarrow> ctor ''POST'' (api_url addr client key meth) body = Inr r0 \<Longrightarrow>
   doer (with_headers body gz r0) = Inr resp \<Longrightarrow> StatusCode resp \<noteq> StatusOK \<Longrightarrow>
   Query L client addr key meth ctor doer req reply =
     \<lparr>err = Some (''request failed with '' @ Status_line resp @ '': '' @ content (RespBody resp)),
      reply_after = reply,
      events = [NewRequest ''POST'' (api_url addr client key meth) body, Do (with_headers body gz r0),
                ReadAll, Close]\<rparr>"
  unfolding Query_def payload_body_def api_url_def with_headers_def ioutil_ReadAll_def
  by (simp only: Let_def sum.case prod.case append.simps option.case if_True if_False simp_thms)

lemma Query_ok_nil_reply:
  "payload_body L addr req = Inr (body, gz) \<Longrightarrow> ctor ''POST'' (api_url addr client key meth) body = Inr r0 \<Longrightarrow>
   doer (with_headers body gz r0) = Inr resp \<Longrightarrow> StatusCode resp = StatusOK \<Longrightarrow>
   Query L client addr key meth ctor doer req None =
     \<lparr>err = None, reply_after = None,
      events = [NewRequest ''POST'' (api_url addr client key meth) body, Do (with_headers body gz r0),
                Close]\<rparr>"
  unfolding Query_def payload_body_def api_url_def with_headers_def
  by (simp only: Let_def sum.case prod.case append.simps option.case if_True if_False simp_thms)

lemma Query_decode_fail:
  "payload_body L addr req = Inr (body, gz) \<Longrightarrow> ctor ''POST'' (api_url addr client key meth) body = Inr r0 \<Longrightarrow>
   doer (with_headers body gz r0) = Inr resp \<Longrightarrow> StatusCode resp = StatusOK \<Longrightarrow>
   json_Decode L (RespBody resp) v = (Some e, v') \<Longrightarrow>
   Query L client addr key meth ctor doer req (Some v) =
     \<lparr>err = Some (''failed to unmarshal response: '' @ e), reply_after = Some v',
      events = [NewRequest ''POST'' (api_url addr client key meth) body, Do (with_headers body gz r0),
                Decode, Close]\<rparr>"
  unfolding Query_def payload_body_def api_url_def with_headers_def
  by (simp only: Let_def sum.case prod.case append.simps option.case if_True if_False simp_thms)

lemma Query_decode_ok:
  "payload_body L addr req = Inr (body, gz) \<Longrightarrow> ctor ''POST'' (api_url addr client key meth) body = Inr r0 \<Longrightarrow>
   doer (with_headers body gz r0) = Inr resp \<Longrightarrow> StatusCode resp = StatusOK \<Longrightarrow>
   json_Decode L (RespBody resp) v = (None, v') \<Longrightarrow>
   Query L client addr key meth ctor doer req (Some v) =
     \<lparr>err = None, reply_after = Some v',
      events = [NewRequest ''POST'' (api_url addr client key meth) body, Do (with_headers body gz r0),
                Decode, Close]\<rparr>"
  unfolding Query_def payload_body_def api_url_def with_headers_def
  by (simp only: Let_def sum.case prod.case append.simps option.case if_True if_False simp_thms)

lemma Query_cases [case_names prep_fail ctor_fail doer_fail non200 nil_reply decode_fail decode_ok]:
  fixes L :: "('q, 'r) golib"
  obtains
    (prep_fail) e where "payload_body L addr req = Inl e"
      "Query L client addr key meth ctor doer req reply = \<lparr>err = Some e, reply_after = reply, events = []\<rparr>"
  | (ctor_fail) body gz e where "payload_body L addr req = Inr (body, gz)"
      "ctor ''POST'' (api_url addr client key meth) body = Inl e"
      "Query L client addr key meth ctor doer req reply =
         \<lparr>err = Some e, reply_after = reply,
          events = [NewRequest ''POST'' (api_url addr client key meth) body]\<rparr>"
  | (doer_fail) body gz r0 e where "payload_body L addr req = Inr (body, gz)"
      "ctor ''POST'' (api_url addr client key meth) body = Inr r0"
      "doer (with_headers body gz r0) = Inl e"
      "Query L client addr key meth ctor doer req reply =
         \<lparr>err = Some (''http request failed: '' @ e), reply_after = reply,
          events = [NewRequest ''POST'' (api_url addr client key meth) body,
                    Do (with_headers body gz r0)]\<rparr>"
  | (non200) body gz r0 resp where "payload_body L addr req = Inr (body, gz)"
      "ctor ''POST'' (api_url addr client key meth) body = Inr r0"
      "doer (with_headers body gz r0) = Inr resp" "StatusCode resp \<noteq> StatusOK"
      "Query L client addr key meth ctor doer req reply =
         \<lparr>err = Some (''request failed with '' @ Status_line resp @ '': '' @ content (RespBody resp)),
          reply_after = reply,
          events = [NewRequest ''POST'' (api_url addr client key meth) body,
                    Do (with_headers body gz r0), ReadAll, Close]\<rparr>"
  | (nil_reply) body gz r0 resp where "payload_body L addr req = Inr (body, gz)"
      "ctor ''POST'' (api_url addr client key meth) body = Inr r0"
      "doer (with_headers body gz r0) = Inr resp" "StatusCode resp = StatusOK" "reply = None"
      "Query L client addr key meth ctor doer req reply =
         \<lparr>err = None, reply_after = None,
          events = [NewRequest ''POST'' (api_url addr client key meth) body,
                    Do (with_headers body gz r0), Close]\<rparr>"
  | (decode_fail) body gz r0 resp v e v' where "payload_body L addr req = Inr (body, gz)"
      "ctor ''POST'' (api_url addr client key meth) body = Inr r0"
      "doer (with_headers body gz r0) = Inr resp" "StatusCode resp = StatusOK" "reply = Some v"
      "json_Decode L (RespBody resp) v = (Some e, v')"
      "Query L client addr key meth ctor doer req reply =
         \<lparr>err = Some (''failed to unmarshal response: '' @ e), reply_after = Some v',
          events = [NewRequest ''POST'' (api_url addr client key meth) body,
                    Do (with_headers body gz r0), Decode, Close]\<rparr>"
  | (decode_ok) body gz r0 resp v v' where "payload_body L addr req = Inr (body, gz)"
      "ctor ''POST'' (api_url addr client key meth) body = Inr r0"
      "doer (with_headers body gz r0) = Inr resp" "StatusCode resp = StatusOK" "reply = Some v"
      "json_Decode L (RespBody resp) v = (None, v')"
      "Query L client addr key meth ctor doer req reply =
         \<lparr>err = None, reply_after = Some v',
          events = [NewRequest ''POST'' (api_url addr client key meth) body,
                    Do (with_headers body gz r0), Decode, Close]\<rparr>"
proof (cases "payload_body L addr req")
  case (Inl e)
  show ?thesis by (rule prep_fail[OF Inl Query_prep_fail[where ctor=ctor and doer=doer, OF Inl]])
next
  case (Inr bg)
  obtain body gz where bg: "bg = (body, gz)" by (cases bg)
  note pb = Inr[unfolded bg]
  show ?thesis
  proof (cases "ctor ''POST'' (api_url addr client key meth) body")
    case (Inl e)
    show ?thesis by (rule ctor_fail[OF pb Inl Query_ctor_fail[where ctor=ctor and doer=doer, OF pb Inl]])
  next
    case r0: (Inr r0)
    show ?thesis
    proof (cases "doer (with_headers body gz r0)")
      case (Inl e)
      show ?thesis by (rule doer_fail[OF pb r0 Inl Query_doer_fail[where ctor=ctor and doer=doer, OF pb r0 Inl]])
    next
      case resp: (Inr resp)
      show ?thesis
      proof (cases "StatusCode resp = StatusOK")
        case False
        show ?thesis by (rule non200[OF pb r0 resp False Query_non200_eq[where ctor=ctor and doer=doer, OF pb r0 resp False]])
      next
        case ok: True
        show ?thesis
        proof (cases reply)
          case None
          show ?thesis
            by (rule nil_reply[OF pb r0 resp ok None])
               (simp only: None Query_ok_nil_reply[where ctor=ctor and doer=doer, OF pb r0 resp ok])
        next
          case (Some v)
          obtain eo v' where d: "json_Decode L (RespBody resp) v = (eo, v')"
            by (cases "json_Decode L (RespBody resp) v")
          show ?thesis
          proof (cases eo)
            case None
            note d' = d[unfolded None]
            show ?thesis
              by (rule decode_ok[OF pb r0 resp ok Some d'])
                 (simp only: Some Query_decode_ok[where ctor=ctor and doer=doer, OF pb r0 resp ok d'])
          next
            case e: (Some e)
            note d' = d[unfolded e]
            show ?thesis
              by (rule decode_fail[OF pb r0 resp ok Some d'])
                 (simp only: Some Query_decode_fail[where ctor=ctor and doer=doer, OF pb r0 resp ok d'])
          qed
        qed
      qed
    qed
  qed
qed

subsection \<open>The URL\<close>

lemma Values_three:
  "Values_Add (Values_Add (Values_Add [] ''client'' c) ''key'' k) ''method'' m =
     [(''client'', [c]), (''key'', [k]), (''method'', [m])]"
  by (simp add: Values_Add_def)

lemma sort_three: "sort [''client'', ''key'', ''method''] = [''client'', ''key'', ''method'']"
  by (simp add: less_eq_char_def less_char_def)

lemma QueryEscape_names:
  "QueryEscape ''client'' = ''client''" "QueryEscape ''key'' = ''key''"
  "QueryEscape ''method'' = ''method''"
  by (simp_all add: QueryEscape_def escape_byte_def unreserved_def less_eq_char_def)

lemma api_url_eq:
  "api_url addr client key method =
     addr @ ''/api?client='' @ QueryEscape client @ ''&key='' @ QueryEscape key @
     ''&method='' @ QueryEscape method"
  by (simp add: api_url_def Values_three Values_Encode_def sort_three QueryEscape_names)

lemma sublist_middle: "sublist xs (ps @ xs @ ss)"
  unfolding sublist_def by blast

lemma sublist_end: "sublist xs (ps @ qs @ rs @ xs)"
proof -
  have "ps @ qs @ rs @ xs = (ps @ qs @ rs) @ xs @ []" by simp
  then show ?thesis unfolding sublist_def by blast
qed

lemma payload_body_None_iff:
  assumes "payload_body L addr req = Inr (body, gz)"
  shows "(body = None) = (req = None)" and "req = None \<Longrightarrow> \<not> gz"
  using assms by (auto simp: payload_body_def split: option.splits if_splits sum.splits)

lemma with_headers_None: "with_headers None gz r0 = r0"
  by (simp add: with_headers_def)

lemma with_headers_plain:
  "with_headers (Some b) False r0 = Header_Set r0 ''Content-Type'' ''application/json''"
  by (simp add: with_headers_def)

lemma with_headers_gzip:
  "with_headers (Some b) True r0 =
     Header_Set (Header_Set r0 ''Content-Type'' ''application/json'') ''Content-Encoding'' ''gzip''"
  by (simp add: with_headers_def)

lemma Header_Set_other: "k' \<noteq> k \<Longrightarrow> Header (Header_Set r k v) k' = Header r k'"
  by (simp add: Header_Set_def)

lemma Header_Set_same: "Header (Header_Set r k v) k = Some [v]"
  by (simp add: Header_Set_def)

lemma non200_outcome:
  assumes sent: "Do r \<in> set (events (Query L client addr key method ctor doer req reply))"
      and resp: "doer r = Inr resp"
      and code: "StatusCode resp \<noteq> StatusOK"
  shows "err (Query L client addr key method ctor doer req reply) =
           Some (''request failed with '' @ Status_line resp @ '': '' @ content (RespBody resp))"
    and "reply_after (Query L client addr key method ctor doer req reply) = reply"
    and "Decode \<notin> set (events (Query L client addr key method ctor doer req reply))"
    and "ReadAll \<in> set (events (Query L client addr key method ctor doer req reply))"
  using sent resp code
  by (cases rule: Query_cases[where L=L and addr=addr and req=req and client=client and key=key
        and meth="method" and ctor=ctor and doer=doer and reply=reply]; auto)+

lemma payload_body_causes:
  "(case payload_body L addr req of
      Inl e \<Rightarrow> encoding_failure L req \<noteq> compression_failure L addr req
    | Inr bg \<Rightarrow> \<not> encoding_failure L req \<and> \<not> compression_failure L addr req)"
  by (auto simp: payload_body_def encoding_failure_def compression_failure_def
      split: option.splits sum.splits)

lemma payload_body_marshalled:
  assumes "json_Marshal L q = Inr data"
  shows "payload_body L addr (Some q) =
           (if length data < 100 \<or> addr = [] \<or> prefix ''http://localhost:'' addr
            then Inr (Some data, False)
            else (case gzip_Write L data of
                    Some e \<Rightarrow> Inl e
                  | None \<Rightarrow>
                      (case gzip_Close L data of
                         Some e \<Rightarrow> Inl e
                       | None \<Rightarrow> Inr (Some (gzip_bytes L data), True))))"
  using assms by (simp add: payload_body_def)

lemma Query_after_body:
  assumes pb: "payload_body L addr req = Inr (body, gz)"
  shows "filter is_NewRequest (events (Query L client addr key meth ctor doer req reply))
           = [NewRequest ''POST'' (api_url addr client key meth) body]
         \<and> (case ctor ''POST'' (api_url addr client key meth) body of
               Inl e \<Rightarrow>
                 filter is_Do (events (Query L client addr key meth ctor doer req reply)) = []
                 \<and> err (Query L client addr key meth ctor doer req reply) = Some e
             | Inr r0 \<Rightarrow>
                 filter is_Do (events (Query L client addr key meth ctor doer req reply))
                   = [Do (with_headers body gz r0)])"
  using pb
  by (cases rule: Query_cases[where L=L and addr=addr and req=req and client=client
        and key=key and meth=meth and ctor=ctor and doer=doer and reply=reply])
     auto

lemma Query_body_failed:
  assumes pb: "payload_body L addr req = Inl e"
  shows "events (Query L client addr key meth ctor doer req reply) = []
         \<and> err (Query L client addr key meth ctor doer req reply) = Some e"
  using Query_prep_fail[OF pb] by simp

lemmas sample_defs = sample_lib_def sample_Marshal_def sample_Decode_def sample_NewRequest_def
  facade_lib_def sample_Marshal_payload_def sample_runtime_def mismatch_lib_def
  mismatch_Decode_def mismatch_doc_def no_update_def first_value_lib_def first_value_Decode_def
  garbage_doc_def no_reports_def respond_def refuse_def StatusOK_def

lemmas Query_eval = Query_def Let_def Values_three Values_Encode_def sort_three QueryEscape_def
  escape_byte_def unreserved_def less_eq_char_def upperhex_def Header_Set_def ioutil_ReadAll_def

subsection \<open>Compression policy\<close>

text \<open>
  Claim C1, as the specification states it: in every call of \<^verbatim>\<open>Query\<close> with a request value
  that \<^verbatim>\<open>json.Marshal\<close> accepts, a body is sent, uncompressed when the marshalled data is
  shorter than 100 bytes. It fails on a call with such a request value and the address
  \<^verbatim>\<open>:8080\<close>: the request constructor rejects the URL, the call returns its error, and no
  request is handed to the doer, so no body is sent.
\<close>

theorem Query_policy_nothing_sent:
  "json_Marshal sample_lib (Str ''b1'') = Inr [CHR 0x22, CHR ''b'', CHR ''1'', CHR 0x22]
   \<and> length [CHR 0x22, CHR ''b'', CHR ''1'', CHR 0x22] < 100
   \<and> filter is_Do
       (events (Query sample_lib ''syz'' '':8080'' ''secret'' ''upload_build''
                  sample_NewRequest refuse (Some (Str ''b1'')) None)) = []
   \<and> err (Query sample_lib ''syz'' '':8080'' ''secret'' ''upload_build''
             sample_NewRequest refuse (Some (Str ''b1'')) None)
       = Some ''parse :8080/api?client=syz&key=secret&method=upload_build: missing protocol scheme''"
  by (simp add: Query_eval sample_defs)

text \<open>
  Claim C1, amended. In a call of \<^verbatim>\<open>Query\<close> with a request value that \<^verbatim>\<open>json.Marshal\<close>
  turns into \<open>data\<close>: if \<open>data\<close> is shorter than 100 bytes, or the address is empty, or the
  address starts with \<^verbatim>\<open>http://localhost:\<close>, the request constructor is called once, with
  \<^verbatim>\<open>POST\<close>, the URL and the body \<open>data\<close>; if it gives a request \<open>r0\<close>, exactly one request is
  handed to the doer, \<open>r0\<close> with \<^verbatim>\<open>Content-Type\<close> set, whose \<^verbatim>\<open>Content-Encoding\<close> is what the
  constructor left (nothing, for \<^verbatim>\<open>http.NewRequest\<close>); if it fails, no request is handed
  to the doer and the call returns the constructor's error. Otherwise, if the gzip writer
  reports no error, the same holds with the body the gzip writer produced from \<open>data\<close>, and
  the request handed to the doer carries \<^verbatim>\<open>Content-Encoding: gzip\<close> as well; if the gzip
  writer reports an error, the call returns that error and does nothing else. That the
  gzip stream decompresses to \<open>data\<close> is a property of \<^verbatim>\<open>compress/gzip\<close>, not of \<^verbatim>\<open>Query\<close>.
\<close>

theorem Query_compression_policy:
  assumes marshal: "json_Marshal L q = Inr data"
  shows
    "let out = Query L client addr key method ctor doer (Some q) reply;
         u = addr @ ''/api?client='' @ QueryEscape client @ ''&key='' @ QueryEscape key
               @ ''&method='' @ QueryEscape method
     in if length data < 100 \<or> addr = [] \<or> prefix ''http://localhost:'' addr
        then filter is_NewRequest (events out) = [NewRequest ''POST'' u (Some data)]
           \<and> (case ctor ''POST'' u (Some data) of
                 Inl e \<Rightarrow> filter is_Do (events out) = [] \<and> err out = Some e
               | Inr r0 \<Rightarrow>
                   filter is_Do (events out)
                     = [Do (Header_Set r0 ''Content-Type'' ''application/json'')]
                   \<and> Header (Header_Set r0 ''Content-Type'' ''application/json'')
                         ''Content-Encoding''
                       = Header r0 ''Content-Encoding'')
        else if gzip_Write L data = None \<and> gzip_Close L data = None
        then filter is_NewRequest (events out)
               = [NewRequest ''POST'' u (Some (gzip_bytes L data))]
           \<and> (case ctor ''POST'' u (Some (gzip_bytes L data)) of
                 Inl e \<Rightarrow> filter is_Do (events out) = [] \<and> err out = Some e
               | Inr r0 \<Rightarrow>
                   filter is_Do (events out)
                     = [Do (Header_Set (Header_Set r0 ''Content-Type'' ''application/json'')
                              ''Content-Encoding'' ''gzip'')]
                   \<and> Header (Header_Set (Header_Set r0 ''Content-Type'' ''application/json'')
                                ''Content-Encoding'' ''gzip'') ''Content-Encoding''
                       = Some [''gzip''])
        else events out = []
           \<and> err out = (case gzip_Write L data of Some e \<Rightarrow> Some e
                         | None \<Rightarrow> gzip_Close L data)"
proof (cases "length data < 100 \<or> addr = [] \<or> prefix ''http://localhost:'' addr")
  case True
  then have pb: "payload_body L addr (Some q) = Inr (Some data, False)"
    using payload_body_marshalled[OF marshal, of addr] by simp
  show ?thesis
    using True
      Query_after_body[OF pb, of client key "method" ctor doer reply, unfolded api_url_eq]
    by (simp add: Let_def with_headers_plain Header_Set_other split: sum.splits)
next
  case False
  show ?thesis
  proof (cases "gzip_Write L data = None \<and> gzip_Close L data = None")
    case True
    then have pb: "payload_body L addr (Some q) = Inr (Some (gzip_bytes L data), True)"
      using payload_body_marshalled[OF marshal, of addr] False by simp
    show ?thesis
      using True False
        Query_after_body[OF pb, of client key "method" ctor doer reply, unfolded api_url_eq]
      by (simp add: Let_def with_headers_gzip Header_Set_same split: sum.splits)
  next
    case ng: False
    then obtain e where pb: "payload_body L addr (Some q) = Inl e"
      and e: "Some e = (case gzip_Write L data of Some e \<Rightarrow> Some e | None \<Rightarrow> gzip_Close L data)"
      using payload_body_marshalled[OF marshal, of addr] False
      by (auto split: option.splits)
    show ?thesis
      using ng False e Query_body_failed[OF pb, of client key "method" ctor doer reply]
      by (simp add: Let_def)
  qed
qed

theorem Query_compression_policy_witness:
  "filter is_Do
     (events (Query sample_lib ''syz'' ''https://dash.example'' ''secret'' ''upload_build''
                sample_NewRequest refuse (Some (Str (replicate 100 CHR ''x''))) None))
     = [Do \<lparr>Method = ''POST'',
             URL = ''https://dash.example/api?client=syz&key=secret&method=upload_build'',
             Body = Some ([CHR 0x1f, CHR 0x8b, CHR 0x22] @ replicate 100 CHR ''x'' @ [CHR 0x22]),
             Header = [''Content-Type'' \<mapsto> [''application/json''],
                       ''Content-Encoding'' \<mapsto> [''gzip'']]\<rparr>]
   \<and> filter is_Do
       (events (Query sample_lib ''syz'' ''https://dash.example'' ''secret'' ''upload_build''
                  sample_NewRequest refuse (Some (Str ''b1'')) None))
       = [Do \<lparr>Method = ''POST'',
               URL = ''https://dash.example/api?client=syz&key=secret&method=upload_build'',
               Body = Some [CHR 0x22, CHR ''b'', CHR ''1'', CHR 0x22],
               Header = [''Content-Type'' \<mapsto> [''application/json'']]\<rparr>]"
proof -
  let ?big = "[CHR 0x22] @ replicate 100 CHR ''x'' @ [CHR 0x22]"
  let ?small = "[CHR 0x22, CHR ''b'', CHR ''1'', CHR 0x22]"
  have m1: "json_Marshal sample_lib (Str (replicate 100 CHR ''x'')) = Inr ?big"
    by (simp add: sample_defs)
  have m2: "json_Marshal sample_lib (Str ''b1'') = Inr ?small"
    by (simp add: sample_defs)
  have esc: "QueryEscape ''syz'' = ''syz''" "QueryEscape ''secret'' = ''secret''"
    "QueryEscape ''upload_build'' = ''upload_build''"
    by (simp_all add: QueryEscape_def escape_byte_def unreserved_def less_eq_char_def)
  have lib: "gzip_Write sample_lib d = None" "gzip_Close sample_lib d = None"
    "gzip_bytes sample_lib d = [CHR 0x1f, CHR 0x8b] @ d" for d
    by (simp_all add: sample_defs)
  have url: "''https://dash.example'' @ ''/api?client='' @ QueryEscape ''syz'' @ ''&key=''
               @ QueryEscape ''secret'' @ ''&method='' @ QueryEscape ''upload_build''
             = ''https://dash.example/api?client=syz&key=secret&method=upload_build''"
    by (simp add: esc)
  from Query_compression_policy[OF m1, of "''syz''" "''https://dash.example''" "''secret''"
      "''upload_build''" sample_NewRequest refuse None]
  have big: "filter is_Do
     (events (Query sample_lib ''syz'' ''https://dash.example'' ''secret'' ''upload_build''
                sample_NewRequest refuse (Some (Str (replicate 100 CHR ''x''))) None))
     = [Do \<lparr>Method = ''POST'',
             URL = ''https://dash.example/api?client=syz&key=secret&method=upload_build'',
             Body = Some ([CHR 0x1f, CHR 0x8b, CHR 0x22] @ replicate 100 CHR ''x'' @ [CHR 0x22]),
             Header = [''Content-Type'' \<mapsto> [''application/json''],
                       ''Content-Encoding'' \<mapsto> [''gzip'']]\<rparr>]"
    unfolding Let_def url by (simp add: lib sample_NewRequest_def Header_Set_def)
  from Query_compression_policy[OF m2, of "''syz''" "''https://dash.example''" "''secret''"
      "''upload_build''" sample_NewRequest refuse None]
  have small: "filter is_Do
       (events (Query sample_lib ''syz'' ''https://dash.example'' ''secret'' ''upload_build''
                  sample_NewRequest refuse (Some (Str ''b1'')) None))
       = [Do \<lparr>Method = ''POST'',
               URL = ''https://dash.example/api?client=syz&key=secret&method=upload_build'',
               Body = Some [CHR 0x22, CHR ''b'', CHR ''1'', CHR 0x22],
               Header = [''Content-Type'' \<mapsto> [''application/json'']]\<rparr>]"
    unfolding Let_def url by (simp add: sample_NewRequest_def Header_Set_def)
  from big small show ?thesis by (rule conjI)
qed

subsection \<open>A response that is not 200 OK\<close>

text \<open>
  Claim C2. When the doer has answered the request of a call of \<^verbatim>\<open>Query\<close> with a response
  whose status code is not 200, the call returns an error; the text of the error holds
  the status line of the response and the text of its body; the reply is not decoded and
  is left as it was. The witness is the specification's example, a 500 response with the
  body \<^verbatim>\<open>internal error\<close>.
\<close>

theorem Query_non200_error:
  assumes sent: "Do r \<in> set (events (Query L client addr key method ctor doer req reply))"
      and resp: "doer r = Inr resp"
      and code: "StatusCode resp \<noteq> StatusOK"
  shows "\<exists>msg. err (Query L client addr key method ctor doer req reply) = Some msg
           \<and> sublist (Status_line resp) msg
           \<and> sublist (content (RespBody resp)) msg
           \<and> Decode \<notin> set (events (Query L client addr key method ctor doer req reply))
           \<and> reply_after (Query L client addr key method ctor doer req reply) = reply"
  using non200_outcome(1-3)[OF sent resp code] sublist_middle sublist_end by blast

theorem Query_non200_error_witness:
  "\<exists>msg. err (Query sample_lib ''syz'' ''https://dash.example'' ''secret'' ''upload_build''
               sample_NewRequest
               (respond 500 ''500 Internal Server Error''
                  \<lparr>content = ''internal error'', fault = None\<rparr>)
               (Some (Str ''b1'')) (Some ''old'')) = Some msg
         \<and> sublist ''500 Internal Server Error'' msg
         \<and> sublist ''internal error'' msg"
proof -
  let ?doer = "respond 500 ''500 Internal Server Error''
                 \<lparr>content = ''internal error'', fault = None\<rparr>"
  let ?resp = "\<lparr>Status_line = ''500 Internal Server Error'', StatusCode = 500,
                RespBody = \<lparr>content = ''internal error'', fault = None\<rparr>\<rparr>"
  let ?r = "\<lparr>Method = ''POST'',
             URL = ''https://dash.example/api?client=syz&key=secret&method=upload_build'',
             Body = Some [CHR 0x22, CHR ''b'', CHR ''1'', CHR 0x22],
             Header = [''Content-Type'' \<mapsto> [''application/json'']]\<rparr>"
  have sent: "Do ?r \<in> set (events (Query sample_lib ''syz'' ''https://dash.example'' ''secret''
                ''upload_build'' sample_NewRequest ?doer (Some (Str ''b1'')) (Some ''old'')))"
    by (simp add: Query_eval sample_defs)
  have resp: "?doer ?r = Inr ?resp"
    by (simp add: respond_def)
  have code: "StatusCode ?resp \<noteq> StatusOK"
    by (simp add: StatusOK_def)
  from Query_non200_error[OF sent resp code] show ?thesis
    by auto
qed

subsection \<open>Decoding the reply\<close>

text \<open>
  Claim C3, as the specification states it: with a reply value and a 200 response whose
  body is not valid JSON for the reply type, \<^verbatim>\<open>Query\<close> returns an error and not a default
  reply. It fails on the body \<^verbatim>\<open>{}<html>not json</html>\<close>, which is not a JSON document:
  \<^verbatim>\<open>Decoder.Decode\<close> reads the empty object in front, stores nothing, and returns nil, so
  \<^verbatim>\<open>Query\<close> returns no error and the reply is what it was, the zero \<^verbatim>\<open>PollResponse\<close>.
\<close>

theorem Query_garbage_accepted:
  "err (Query first_value_lib ''syz'' ''https://dash.example'' ''secret'' ''poll''
          sample_NewRequest
          (respond 200 ''200 OK'' \<lparr>content = garbage_doc, fault = None\<rparr>)
          None (Some no_reports))
     = None
   \<and> reply_after (Query first_value_lib ''syz'' ''https://dash.example'' ''secret'' ''poll''
          sample_NewRequest
          (respond 200 ''200 OK'' \<lparr>content = garbage_doc, fault = None\<rparr>)
          None (Some no_reports))
     = Some no_reports"
  by (simp add: Query_eval sample_defs first_value_lib_def first_value_Decode_def
      garbage_doc_def)

text \<open>
  Claim C3, amended. When the doer has answered the request of a call of \<^verbatim>\<open>Query\<close> with a 200
  response and the caller gave a reply value: if \<^verbatim>\<open>Decoder.Decode\<close> returns an error on the
  body, the call returns that error behind \<^verbatim>\<open>failed to unmarshal response:\<close>, not success;
  if \<^verbatim>\<open>Decoder.Decode\<close> returns no error, the call returns no error and the reply is what
  the decoder left, whatever follows the value it read. If the caller gave no reply
  value, the call returns no error and never reads the body.
\<close>

theorem Query_reply_decoding:
  assumes sent: "Do r \<in> set (events (Query L client addr key method ctor doer req reply))"
      and resp: "doer r = Inr resp"
      and code: "StatusCode resp = StatusOK"
  shows "(\<forall>v e v'. reply = Some v \<and> json_Decode L (RespBody resp) v = (Some e, v') \<longrightarrow>
            err (Query L client addr key method ctor doer req reply) =
              Some (''failed to unmarshal response: '' @ e)
            \<and> reply_after (Query L client addr key method ctor doer req reply) = Some v')
         \<and> (\<forall>v v'. reply = Some v \<and> json_Decode L (RespBody resp) v = (None, v') \<longrightarrow>
              err (Query L client addr key method ctor doer req reply) = None
              \<and> reply_after (Query L client addr key method ctor doer req reply) = Some v')
         \<and> (reply = None \<longrightarrow>
              err (Query L client addr key method ctor doer req reply) = None
              \<and> ReadAll \<notin> set (events (Query L client addr key method ctor doer req reply))
              \<and> Decode \<notin> set (events (Query L client addr key method ctor doer req reply))
              \<and> reply_after (Query L client addr key method ctor doer req reply) = None)"
  using sent resp code
  by (cases rule: Query_cases[where L=L and addr=addr and req=req and client=client and key=key
        and meth="method" and ctor=ctor and doer=doer and reply=reply])
     auto

theorem Query_reply_decoding_witness:
  "err (Query sample_lib ''syz'' ''https://dash.example'' ''secret'' ''poll''
          sample_NewRequest
          (respond 200 ''200 OK'' \<lparr>content = [CHR 0x22, CHR ''a''], fault = None\<rparr>)
          None (Some ''old''))
     = Some ''failed to unmarshal response: unexpected EOF''
   \<and> err (Query sample_lib ''syz'' ''https://dash.example'' ''secret'' ''poll''
          sample_NewRequest
          (respond 200 ''200 OK'' \<lparr>content = [CHR 0x22, CHR ''a''], fault = None\<rparr>)
          None None)
     = None
   \<and> reply_after (Query sample_lib ''syz'' ''https://dash.example'' ''secret'' ''poll''
          sample_NewRequest
          (respond 200 ''200 OK'' \<lparr>content = [CHR 0x22, CHR ''a'', CHR 0x22], fault = None\<rparr>)
          None (Some ''old''))
     = Some ''a''"
proof -
  let ?cut = "\<lparr>content = [CHR 0x22, CHR ''a''], fault = None\<rparr>"
  let ?whole = "\<lparr>content = [CHR 0x22, CHR ''a'', CHR 0x22], fault = None\<rparr>"
  let ?r = "\<lparr>Method = ''POST'',
             URL = ''https://dash.example/api?client=syz&key=secret&method=poll'',
             Body = None, Header = Map.empty\<rparr>"
  have sent:
    "Do ?r \<in> set (events (Query sample_lib ''syz'' ''https://dash.example'' ''secret''
               ''poll'' sample_NewRequest (respond 200 ''200 OK'' b) None reply))" for b reply
    by (cases reply) (simp_all add: Query_eval sample_defs split: prod.splits option.splits)
  have resp: "respond 200 ''200 OK'' b ?r
                = Inr \<lparr>Status_line = ''200 OK'', StatusCode = 200, RespBody = b\<rparr>" for b
    by (simp add: respond_def)
  have code: "StatusCode \<lparr>Status_line = ''200 OK'', StatusCode = 200, RespBody = b\<rparr>
                = StatusOK" for b :: ReadCloser
    by (simp add: StatusOK_def)
  have cut: "json_Decode sample_lib ?cut ''old'' = (Some ''unexpected EOF'', ''old'')"
    by (simp add: sample_defs)
  have whole: "json_Decode sample_lib ?whole ''old'' = (None, ''a'')"
    by (simp add: sample_defs)
  from Query_reply_decoding[OF sent[of ?cut "Some ''old''"] resp code] cut
       Query_reply_decoding[OF sent[of ?cut None] resp code]
       Query_reply_decoding[OF sent[of ?whole "Some ''old''"] resp code] whole
  show ?thesis
    by simp
qed

subsection \<open>The causes of an error\<close>

text \<open>
  Claim C6, as the specification states it: every error of \<^verbatim>\<open>Query\<close> has one of four causes
  (the request value cannot be marshalled, the HTTP call fails, the response is not 200,
  the reply cannot be decoded). It fails on a call whose request constructor returns an
  error, here for an address that starts with a colon: the call returns the constructor's
  error, and none of the four causes holds.
\<close>

theorem Query_error_outside_taxonomy:
  "err (Query sample_lib ''syz'' '':8080'' ''secret'' ''upload_build'' sample_NewRequest
          refuse (Some (Str ''b1'')) None)
     = Some ''parse :8080/api?client=syz&key=secret&method=upload_build: missing protocol scheme''
   \<and> \<not> encoding_failure sample_lib (Some (Str ''b1''))
   \<and> \<not> transport_failure refuse
         (Query sample_lib ''syz'' '':8080'' ''secret'' ''upload_build'' sample_NewRequest
            refuse (Some (Str ''b1'')) None)
   \<and> \<not> remote_failure refuse
         (Query sample_lib ''syz'' '':8080'' ''secret'' ''upload_build'' sample_NewRequest
            refuse (Some (Str ''b1'')) None)
   \<and> \<not> decoding_failure sample_lib refuse None
         (Query sample_lib ''syz'' '':8080'' ''secret'' ''upload_build'' sample_NewRequest
            refuse (Some (Str ''b1'')) None)"
  by (simp add: Query_eval sample_defs encoding_failure_def transport_failure_def
      remote_failure_def decoding_failure_def)

text \<open>
  Claim C6, amended: \<^verbatim>\<open>Query\<close> returns an error exactly when one of six causes holds, and
  then exactly one of them holds: the four of the specification, a failure of the gzip
  writer, and a failure of the request constructor.
\<close>

theorem Query_error_causes:
  "length (filter id
     [encoding_failure L req,
      compression_failure L addr req,
      construction_failure ctor (Query L client addr key method ctor doer req reply),
      transport_failure doer (Query L client addr key method ctor doer req reply),
      remote_failure doer (Query L client addr key method ctor doer req reply),
      decoding_failure L doer reply (Query L client addr key method ctor doer req reply)])
   = (if err (Query L client addr key method ctor doer req reply) = None then 0 else 1)"
proof (cases rule: Query_cases[where L=L and addr=addr and req=req and client=client
          and key=key and meth="method" and ctor=ctor and doer=doer and reply=reply])
  case (prep_fail e)
  from payload_body_causes[where L=L and addr=addr and req=req] prep_fail(1)
  have "encoding_failure L req \<noteq> compression_failure L addr req" by simp
  then show ?thesis
    unfolding prep_fail(2)
    by (auto simp: construction_failure_def transport_failure_def remote_failure_def
        decoding_failure_def)
next
  case (ctor_fail body gz e)
  from payload_body_causes[where L=L and addr=addr and req=req] ctor_fail(1)
  have "\<not> encoding_failure L req" "\<not> compression_failure L addr req" by simp_all
  then show ?thesis
    unfolding ctor_fail(3) using ctor_fail(2)
    by (simp add: construction_failure_def transport_failure_def remote_failure_def
        decoding_failure_def)
next
  case (doer_fail body gz r0 e)
  from payload_body_causes[where L=L and addr=addr and req=req] doer_fail(1)
  have "\<not> encoding_failure L req" "\<not> compression_failure L addr req" by simp_all
  then show ?thesis
    unfolding doer_fail(4) using doer_fail(2,3)
    by (simp add: construction_failure_def transport_failure_def remote_failure_def
        decoding_failure_def)
next
  case (non200 body gz r0 resp)
  from payload_body_causes[where L=L and addr=addr and req=req] non200(1)
  have "\<not> encoding_failure L req" "\<not> compression_failure L addr req" by simp_all
  then show ?thesis
    unfolding non200(5) using non200(2,3,4)
    by (simp add: construction_failure_def transport_failure_def remote_failure_def
        decoding_failure_def)
next
  case (nil_reply body gz r0 resp)
  from payload_body_causes[where L=L and addr=addr and req=req] nil_reply(1)
  have "\<not> encoding_failure L req" "\<not> compression_failure L addr req" by simp_all
  then show ?thesis
    unfolding nil_reply(6) using nil_reply(2,3,4,5)
    by (simp add: construction_failure_def transport_failure_def remote_failure_def
        decoding_failure_def)
next
  case (decode_fail body gz r0 resp v e v')
  from payload_body_causes[where L=L and addr=addr and req=req] decode_fail(1)
  have "\<not> encoding_failure L req" "\<not> compression_failure L addr req" by simp_all
  then show ?thesis
    unfolding decode_fail(7) using decode_fail(2,3,4,5,6)
    by (simp add: construction_failure_def transport_failure_def remote_failure_def
        decoding_failure_def)
next
  case (decode_ok body gz r0 resp v v')
  from payload_body_causes[where L=L and addr=addr and req=req] decode_ok(1)
  have "\<not> encoding_failure L req" "\<not> compression_failure L addr req" by simp_all
  then show ?thesis
    unfolding decode_ok(7) using decode_ok(2,3,4,5,6)
    by (simp add: construction_failure_def transport_failure_def remote_failure_def
        decoding_failure_def)
qed

theorem Query_error_causes_witness:
  "length (filter id
     [encoding_failure sample_lib (Some (Str ''b1'')),
      compression_failure sample_lib ''https://dash.example'' (Some (Str ''b1'')),
      construction_failure sample_NewRequest
        (Query sample_lib ''syz'' ''https://dash.example'' ''secret'' ''upload_build''
           sample_NewRequest refuse (Some (Str ''b1'')) (None :: string option)),
      transport_failure refuse
        (Query sample_lib ''syz'' ''https://dash.example'' ''secret'' ''upload_build''
           sample_NewRequest refuse (Some (Str ''b1'')) (None :: string option)),
      remote_failure refuse
        (Query sample_lib ''syz'' ''https://dash.example'' ''secret'' ''upload_build''
           sample_NewRequest refuse (Some (Str ''b1'')) (None :: string option)),
      decoding_failure sample_lib refuse None
        (Query sample_lib ''syz'' ''https://dash.example'' ''secret'' ''upload_build''
           sample_NewRequest refuse (Some (Str ''b1'')) (None :: string option))]) = 1"
proof -
  have "err (Query sample_lib ''syz'' ''https://dash.example'' ''secret'' ''upload_build''
           sample_NewRequest refuse (Some (Str ''b1'')) (None :: string option)) \<noteq> None"
    by (simp add: Query_eval sample_defs)
  with Query_error_causes[of sample_lib "Some (Str ''b1'')" "''https://dash.example''"
         sample_NewRequest "''syz''" "''secret''" "''upload_build''" refuse None]
  show ?thesis by simp
qed

subsection \<open>The reply value after an error\<close>

text \<open>
  Claim C7, as the specification states it: a call of \<^verbatim>\<open>Query\<close> that returns an error leaves
  the caller's reply value as it was. It fails when the decoder fails after it has stored
  a part of the document: the call returns the decoding error, and the \<^verbatim>\<open>ID\<close> of the reply
  has changed.
\<close>

theorem Query_partial_reply:
  "err (Query mismatch_lib ''syz'' ''https://dash.example'' ''secret'' ''poll''
          sample_NewRequest
          (respond 200 ''200 OK'' \<lparr>content = mismatch_doc, fault = None\<rparr>)
          None (Some no_update))
     = Some (''failed to unmarshal response: json: cannot unmarshal string into Go struct ''
             @ ''field BugUpdate.Status of type dashapi.BugStatus'')
   \<and> reply_after (Query mismatch_lib ''syz'' ''https://dash.example'' ''secret'' ''poll''
          sample_NewRequest
          (respond 200 ''200 OK'' \<lparr>content = mismatch_doc, fault = None\<rparr>)
          None (Some no_update))
     = Some (no_update\<lparr>BugUpdate_ID := ''bug1''\<rparr>)
   \<and> no_update\<lparr>BugUpdate_ID := ''bug1''\<rparr> \<noteq> no_update"
  by (simp add: Query_eval sample_defs)

text \<open>
  Claim C7, amended: a call of \<^verbatim>\<open>Query\<close> that returns an error other than a decoding
  error leaves the caller's reply value as it was, and never starts to decode; when the
  decoding fails, the reply value is what the JSON decoder left in it.
\<close>

theorem Query_reply_after:
  "(err (Query L client addr key method ctor doer req reply) \<noteq> None
      \<and> \<not> decoding_failure L doer reply (Query L client addr key method ctor doer req reply)
    \<longrightarrow> reply_after (Query L client addr key method ctor doer req reply) = reply
        \<and> Decode \<notin> set (events (Query L client addr key method ctor doer req reply)))
   \<and> (decoding_failure L doer reply (Query L client addr key method ctor doer req reply)
    \<longrightarrow> (\<exists>r resp v.
           Do r \<in> set (events (Query L client addr key method ctor doer req reply))
         \<and> doer r = Inr resp \<and> reply = Some v
         \<and> reply_after (Query L client addr key method ctor doer req reply)
             = Some (snd (json_Decode L (RespBody resp) v))))"
proof (cases rule: Query_cases[where L=L and addr=addr and req=req and client=client
          and key=key and meth="method" and ctor=ctor and doer=doer and reply=reply])
  case (prep_fail e)
  show ?thesis unfolding prep_fail(2) by (simp add: decoding_failure_def)
next
  case (ctor_fail body gz e)
  show ?thesis unfolding ctor_fail(3) by (simp add: decoding_failure_def)
next
  case (doer_fail body gz r0 e)
  show ?thesis unfolding doer_fail(4) using doer_fail(3) by (simp add: decoding_failure_def)
next
  case (non200 body gz r0 resp)
  show ?thesis unfolding non200(5) using non200(3,4) by (simp add: decoding_failure_def)
next
  case (nil_reply body gz r0 resp)
  show ?thesis unfolding nil_reply(6) using nil_reply(3,4,5) by (simp add: decoding_failure_def)
next
  case (decode_fail body gz r0 resp v e v')
  show ?thesis unfolding decode_fail(7) using decode_fail(3,4,5,6)
    by (simp add: decoding_failure_def)
next
  case (decode_ok body gz r0 resp v v')
  show ?thesis unfolding decode_ok(7) using decode_ok(3,4,5,6)
    by (simp add: decoding_failure_def)
qed

theorem Query_reply_after_witness:
  "reply_after (Query mismatch_lib ''syz'' ''https://dash.example'' ''secret'' ''poll''
                  sample_NewRequest refuse None (Some no_update)) = Some no_update
   \<and> (\<exists>r resp v.
         respond 200 ''200 OK'' \<lparr>content = mismatch_doc, fault = None\<rparr> r = Inr resp
       \<and> Some no_update = Some v
       \<and> reply_after (Query mismatch_lib ''syz'' ''https://dash.example'' ''secret'' ''poll''
                         sample_NewRequest
                         (respond 200 ''200 OK'' \<lparr>content = mismatch_doc, fault = None\<rparr>)
                         None (Some no_update))
           = Some (snd (json_Decode mismatch_lib (RespBody resp) v)))"
proof -
  let ?doer = "respond 200 ''200 OK'' \<lparr>content = mismatch_doc, fault = None\<rparr>"
  let ?Q1 = "Query mismatch_lib ''syz'' ''https://dash.example'' ''secret'' ''poll''
               sample_NewRequest refuse None (Some no_update)"
  let ?Q2 = "Query mismatch_lib ''syz'' ''https://dash.example'' ''secret'' ''poll''
               sample_NewRequest ?doer None (Some no_update)"
  have a: "err ?Q1 \<noteq> None \<and> \<not> decoding_failure mismatch_lib refuse (Some no_update) ?Q1"
    by (simp add: Query_eval sample_defs decoding_failure_def)
  have b: "decoding_failure mismatch_lib ?doer (Some no_update) ?Q2"
    by (simp add: Query_eval sample_defs decoding_failure_def)
  from Query_reply_after[of mismatch_lib "''syz''" "''https://dash.example''" "''secret''"
         "''poll''" sample_NewRequest refuse None "Some no_update"] a
  have 1: "reply_after ?Q1 = Some no_update" by blast
  from Query_reply_after[of mismatch_lib "''syz''" "''https://dash.example''" "''secret''"
         "''poll''" sample_NewRequest ?doer None "Some no_update"] b
  have 2: "\<exists>r resp v. Do r \<in> set (events ?Q2) \<and> ?doer r = Inr resp \<and> Some no_update = Some v
             \<and> reply_after ?Q2 = Some (snd (json_Decode mismatch_lib (RespBody resp) v))"
    by blast
  from 1 2 show ?thesis by blast
qed

subsection \<open>The request\<close>

text \<open>
  Claim C8, as the specification states it: every call of \<^verbatim>\<open>Query\<close> issues exactly one HTTP
  POST. It fails on a call whose request value cannot be marshalled (a Go channel): the
  call returns the marshalling error before it builds a request, and no request is
  handed to the doer.
\<close>

theorem Query_no_post:
  "err (Query sample_lib ''syz'' ''https://dash.example'' ''secret'' ''upload_build''
          sample_NewRequest refuse (Some Chan) None)
     = Some ''failed to marshal request: json: unsupported type: chan int''
   \<and> filter is_Do
       (events (Query sample_lib ''syz'' ''https://dash.example'' ''secret'' ''upload_build''
                  sample_NewRequest refuse (Some Chan) None)) = []
   \<and> filter is_NewRequest
       (events (Query sample_lib ''syz'' ''https://dash.example'' ''secret'' ''upload_build''
                  sample_NewRequest refuse (Some Chan) None)) = []"
  by (simp add: Query_eval sample_defs)

text \<open>
  Claim C8, amended. A call of \<^verbatim>\<open>Query\<close> whose request value cannot be marshalled, or
  whose marshalled data the gzip writer fails on, returns an error and does nothing: it
  builds no request. Every other call calls the request constructor exactly once, with
  the method \<^verbatim>\<open>POST\<close> and the URL \<^verbatim>\<open><addr>/api?client=<client>&key=<key>&method=<method>\<close> (the
  three values query-escaped), with or without a request value; the body is absent
  exactly when the request value is. If the constructor fails, the call returns its
  error and hands no request to the doer. If it succeeds, the call hands exactly one
  request to the doer: without a body the request is the constructor's, untouched; with a
  body it is the constructor's with \<^verbatim>\<open>Content-Type\<close> set to \<^verbatim>\<open>application/json\<close>, and
  \<^verbatim>\<open>Content-Encoding\<close> to \<^verbatim>\<open>gzip\<close> or not.
\<close>

theorem Query_posts_once:
  "let out = Query L client addr key method ctor doer req reply;
       u = addr @ ''/api?client='' @ QueryEscape client @ ''&key='' @ QueryEscape key
             @ ''&method='' @ QueryEscape method
   in if encoding_failure L req \<or> compression_failure L addr req
      then events out = [] \<and> err out \<noteq> None
      else (\<exists>b. (b = None) = (req = None)
              \<and> filter is_NewRequest (events out) = [NewRequest ''POST'' u b]
              \<and> (case ctor ''POST'' u b of
                    Inl e \<Rightarrow> filter is_Do (events out) = [] \<and> err out = Some e
                  | Inr r0 \<Rightarrow>
                      (\<exists>r. filter is_Do (events out) = [Do r]
                         \<and> (if req = None then r = r0
                             else (r = Header_Set r0 ''Content-Type'' ''application/json''
                                   \<or> r = Header_Set
                                           (Header_Set r0 ''Content-Type'' ''application/json'')
                                           ''Content-Encoding'' ''gzip'')
                                \<and> Header r ''Content-Type'' = Some [''application/json'']))))"
proof (cases "payload_body L addr req")
  case (Inl e)
  then have "encoding_failure L req \<or> compression_failure L addr req"
    using payload_body_causes[where L=L and addr=addr and req=req] by auto
  then show ?thesis
    using Query_body_failed[OF Inl, of client key "method" ctor doer reply]
    by (simp add: Let_def)
next
  case (Inr bg)
  obtain b gz where bg: "bg = (b, gz)" by (cases bg)
  note pb = Inr[unfolded bg]
  have nf: "\<not> (encoding_failure L req \<or> compression_failure L addr req)"
    using payload_body_causes[where L=L and addr=addr and req=req] Inr by simp
  have h: "if req = None then with_headers b gz r0 = r0
           else (with_headers b gz r0 = Header_Set r0 ''Content-Type'' ''application/json''
                 \<or> with_headers b gz r0
                     = Header_Set (Header_Set r0 ''Content-Type'' ''application/json'')
                         ''Content-Encoding'' ''gzip'')
              \<and> Header (with_headers b gz r0) ''Content-Type'' = Some [''application/json'']"
    for r0
    using payload_body_None_iff[OF pb]
    by (cases b; cases gz)
       (auto simp: with_headers_None with_headers_plain with_headers_gzip Header_Set_same
          Header_Set_other)
  have "(b = None) = (req = None)
      \<and> filter is_NewRequest (events (Query L client addr key method ctor doer req reply))
          = [NewRequest ''POST''
               (addr @ ''/api?client='' @ QueryEscape client @ ''&key='' @ QueryEscape key
                 @ ''&method='' @ QueryEscape method) b]
      \<and> (case ctor ''POST''
               (addr @ ''/api?client='' @ QueryEscape client @ ''&key='' @ QueryEscape key
                 @ ''&method='' @ QueryEscape method) b of
            Inl e \<Rightarrow>
              filter is_Do (events (Query L client addr key method ctor doer req reply)) = []
              \<and> err (Query L client addr key method ctor doer req reply) = Some e
          | Inr r0 \<Rightarrow>
              (\<exists>r. filter is_Do (events (Query L client addr key method ctor doer req reply))
                     = [Do r]
                 \<and> (if req = None then r = r0
                     else (r = Header_Set r0 ''Content-Type'' ''application/json''
                           \<or> r = Header_Set
                                   (Header_Set r0 ''Content-Type'' ''application/json'')
                                   ''Content-Encoding'' ''gzip'')
                        \<and> Header r ''Content-Type'' = Some [''application/json''])))"
    using Query_after_body[OF pb, of client key "method" ctor doer reply, unfolded api_url_eq]
      payload_body_None_iff(1)[OF pb] h
    by (auto split: sum.splits)
  then show ?thesis
    using nf unfolding Let_def by (simp only: if_False) blast
qed

theorem Query_posts_once_witness:
  "filter is_NewRequest
     (events (Query sample_lib ''syz 1'' ''https://dash.example'' ''s&t'' ''poll''
                sample_NewRequest refuse None None))
     = [NewRequest ''POST'' ''https://dash.example/api?client=syz+1&key=s%26t&method=poll'' None]
   \<and> filter is_Do
       (events (Query sample_lib ''syz 1'' ''https://dash.example'' ''s&t'' ''poll''
                  sample_NewRequest refuse None None))
       = [Do \<lparr>Method = ''POST'',
               URL = ''https://dash.example/api?client=syz+1&key=s%26t&method=poll'',
               Body = None, Header = Map.empty\<rparr>]
   \<and> events (Query sample_lib ''syz 1'' ''https://dash.example'' ''s&t'' ''poll''
               sample_NewRequest refuse (Some Chan) None) = []"
proof -
  let ?u = "''https://dash.example/api?client=syz+1&key=s%26t&method=poll''"
  have url: "''https://dash.example'' @ ''/api?client='' @ QueryEscape ''syz 1'' @ ''&key=''
               @ QueryEscape ''s&t'' @ ''&method='' @ QueryEscape ''poll'' = ?u"
    by (simp add: QueryEscape_def escape_byte_def unreserved_def less_eq_char_def upperhex_def)
  have none: "\<not> (encoding_failure sample_lib None
                 \<or> compression_failure sample_lib ''https://dash.example'' None)"
    by (simp add: encoding_failure_def compression_failure_def)
  have chan: "encoding_failure sample_lib (Some Chan)
                \<or> compression_failure sample_lib ''https://dash.example'' (Some Chan)"
    by (simp add: encoding_failure_def sample_defs)
  have ctor: "sample_NewRequest ''POST'' ?u None
                = Inr \<lparr>Method = ''POST'', URL = ?u, Body = None, Header = Map.empty\<rparr>"
    by (simp add: sample_NewRequest_def)
  from Query_posts_once[of sample_lib "''syz 1''" "''https://dash.example''" "''s&t''" "''poll''"
      sample_NewRequest refuse None None]
  have sent: "filter is_NewRequest
     (events (Query sample_lib ''syz 1'' ''https://dash.example'' ''s&t'' ''poll''
                sample_NewRequest refuse None None))
     = [NewRequest ''POST'' ?u None]
   \<and> filter is_Do
       (events (Query sample_lib ''syz 1'' ''https://dash.example'' ''s&t'' ''poll''
                  sample_NewRequest refuse None None))
       = [Do \<lparr>Method = ''POST'', URL = ?u, Body = None, Header = Map.empty\<rparr>]"
    unfolding Let_def url if_not_P[OF none] by (auto simp: ctor)
  from Query_posts_once[of sample_lib "''syz 1''" "''https://dash.example''" "''s&t''" "''poll''"
      sample_NewRequest refuse "Some Chan" None]
  have failed: "events (Query sample_lib ''syz 1'' ''https://dash.example'' ''s&t'' ''poll''
                          sample_NewRequest refuse (Some Chan) None) = []"
    unfolding Let_def if_P[OF chan] by (rule conjunct1)
  from sent failed show ?thesis by simp
qed

subsection \<open>The facade\<close>

text \<open>
  Claim C5. \<^verbatim>\<open>LogError\<close> builds a log entry from the name and from the message that
  \<^verbatim>\<open>fmt.Sprintf\<close> formats from the template and the arguments, and sends it through
  \<^verbatim>\<open>Query\<close> with the method \<^verbatim>\<open>log_error\<close> and no reply value. What \<^verbatim>\<open>LogError\<close> leaves behind
  is the events of that call, whatever the call returns: its error goes nowhere. The
  witness is a call whose transport never connects.
\<close>

theorem LogError_drops_error:
  "LogError L R dash name msg args =
     events (Query L (Client dash) (Addr dash) (Key dash) ''log_error''
               (http_NewRequest R) (http_DefaultClient_Do R)
               (Some (PLogEntry (Some \<lparr>Name = name, Text = fmt_Sprintf R msg args\<rparr>)))
               (None :: 'r option))
   \<and> (\<forall>m u b. NewRequest m u b \<in> set (LogError L R dash name msg args) \<longrightarrow>
         m = ''POST'' \<and>
         u = Addr dash @ ''/api?client='' @ QueryEscape (Client dash) @ ''&key=''
               @ QueryEscape (Key dash) @ ''&method=log_error'')"
proof -
  let ?req = "Some (PLogEntry (Some \<lparr>Name = name, Text = fmt_Sprintf R msg args\<rparr>))"
  let ?out = "Query L (Client dash) (Addr dash) (Key dash) ''log_error''
               (http_NewRequest R) (http_DefaultClient_Do R) ?req (None :: 'r option)"
  have eq: "LogError L R dash name msg args = events ?out"
    by (simp add: LogError_def query_def Let_def)
  have esc: "QueryEscape ''log_error'' = ''log_error''"
    by (simp add: QueryEscape_def escape_byte_def unreserved_def less_eq_char_def)
  have "\<forall>m u b. NewRequest m u b \<in> set (events ?out) \<longrightarrow>
          m = ''POST'' \<and> u = api_url (Addr dash) (Client dash) (Key dash) ''log_error''"
    by (cases rule: Query_cases[where L=L and addr="Addr dash" and req="?req"
          and client="Client dash" and key="Key dash" and meth="''log_error''"
          and ctor="http_NewRequest R" and doer="http_DefaultClient_Do R"
          and reply="None :: 'r option"]) auto
  then show ?thesis
    unfolding eq api_url_eq esc by simp
qed

theorem LogError_drops_error_witness:
  \<open>LogError facade_lib sample_runtime (New ''syz'' ''https://dash.example'' ''secret'')
     ''manager'' ''disk full'' []
   = [NewRequest ''POST'' ''https://dash.example/api?client=syz&key=secret&method=log_error''
        (Some ''{"Name":"manager","Text":"disk full"}''),
      Do \<lparr>Method = ''POST'',
          URL = ''https://dash.example/api?client=syz&key=secret&method=log_error'',
          Body = Some ''{"Name":"manager","Text":"disk full"}'',
          Header = [''Content-Type'' \<mapsto> [''application/json'']]\<rparr>]
   \<and> err (Query facade_lib ''syz'' ''https://dash.example'' ''secret'' ''log_error''
            sample_NewRequest refuse
            (Some (PLogEntry (Some \<lparr>Name = ''manager'', Text = ''disk full''\<rparr>))) None)
     = Some ''http request failed: dial tcp 127.0.0.1:80: connection refused''\<close>
proof -
  have e: \<open>err (Query facade_lib ''syz'' ''https://dash.example'' ''secret'' ''log_error''
            sample_NewRequest refuse
            (Some (PLogEntry (Some \<lparr>Name = ''manager'', Text = ''disk full''\<rparr>))) None)
     = Some ''http request failed: dial tcp 127.0.0.1:80: connection refused''\<close>
    by (simp add: Query_eval sample_defs)
  have ev: \<open>events (Query facade_lib ''syz'' ''https://dash.example'' ''secret'' ''log_error''
            sample_NewRequest refuse
            (Some (PLogEntry (Some \<lparr>Name = ''manager'', Text = ''disk full''\<rparr>))) None)
     = [NewRequest ''POST'' ''https://dash.example/api?client=syz&key=secret&method=log_error''
        (Some ''{"Name":"manager","Text":"disk full"}''),
      Do \<lparr>Method = ''POST'',
          URL = ''https://dash.example/api?client=syz&key=secret&method=log_error'',
          Body = Some ''{"Name":"manager","Text":"disk full"}'',
          Header = [''Content-Type'' \<mapsto> [''application/json'']]\<rparr>]\<close>
    by (simp add: Query_eval sample_defs)
  from LogError_drops_error[of facade_lib sample_runtime
         "New ''syz'' ''https://dash.example'' ''secret''" "''manager''" "''disk full''" "[]"]
  have "LogError facade_lib sample_runtime (New ''syz'' ''https://dash.example'' ''secret'')
          ''manager'' ''disk full'' []
        = events (Query facade_lib ''syz'' ''https://dash.example'' ''secret'' ''log_error''
            sample_NewRequest refuse
            (Some (PLogEntry (Some \<lparr>Name = ''manager'', Text = ''disk full''\<rparr>))) None)"
    by (simp add: New_def sample_runtime_def)
  with e ev show ?thesis by simp
qed

text \<open>
  Claim C9, as the specification states it: the facade has a \<^verbatim>\<open>Poll\<close> operation that takes
  a \<^verbatim>\<open>PollRequest\<close> and an \<^verbatim>\<open>UpdateBug\<close> operation that takes a \<^verbatim>\<open>BugUpdate\<close>. The source
  declares neither: no call of the facade hands a \<^verbatim>\<open>PollRequest\<close> or a \<^verbatim>\<open>BugUpdate\<close> to the
  transport function.
\<close>

theorem facade_has_no_poll:
  "\<not> (\<exists>(R :: unit runtime) c p u.
        call_request R c = PPollRequest p \<or> call_request R c = PBugUpdate u)"
proof
  assume "\<exists>(R :: unit runtime) c p u.
        call_request R c = PPollRequest p \<or> call_request R c = PBugUpdate u"
  then obtain R :: "unit runtime" and c p u
    where "call_request R c = PPollRequest p \<or> call_request R c = PBugUpdate u" by blast
  then show False by (cases c) simp_all
qed

text \<open>
  Claim C9, amended: the operations of the facade are \<^verbatim>\<open>UploadBuild\<close>, \<^verbatim>\<open>ReportCrash\<close>,
  \<^verbatim>\<open>ReportFailedRepro\<close> and \<^verbatim>\<open>LogError\<close>. Each is one call of the transport function with
  the facade's client, address and key, the Go HTTP client, a fixed method name
  (\<^verbatim>\<open>upload_build\<close>, \<^verbatim>\<open>report_crash\<close>, \<^verbatim>\<open>report_failed_repro\<close>, \<^verbatim>\<open>log_error\<close>), its
  \<^verbatim>\<open>Build\<close>, \<^verbatim>\<open>Crash\<close>, \<^verbatim>\<open>FailedRepro\<close> or \<^verbatim>\<open>LogEntry\<close> as the request value and no reply
  value; each but \<^verbatim>\<open>LogError\<close> returns the error of that call.
\<close>

theorem facade_operations:
  "invoke L R dash c =
     (let out = Query L (Client dash) (Addr dash) (Key dash) (call_method c)
                  (http_NewRequest R) (http_DefaultClient_Do R)
                  (Some (call_request R c)) (None :: 'r option)
      in (case c of Call_LogError _ _ _ \<Rightarrow> None | _ \<Rightarrow> err out, events out))
   \<and> call_method c \<in> {''upload_build'', ''report_crash'', ''report_failed_repro'', ''log_error''}
   \<and> (case call_request R c of
         PBuild _ \<Rightarrow> True | PCrash _ \<Rightarrow> True | PFailedRepro _ \<Rightarrow> True | PLogEntry _ \<Rightarrow> True
       | _ \<Rightarrow> False)"
  by (cases c)
     (simp_all add: UploadBuild_def ReportCrash_def ReportFailedRepro_def LogError_def query_def
        Let_def)

theorem facade_operations_witness:
  "invoke facade_lib sample_runtime (New ''syz'' ''https://dash.example'' ''secret'')
     (Call_ReportFailedRepro None)
   = (Some ''http request failed: dial tcp 127.0.0.1:80: connection refused'',
      [NewRequest ''POST''
         ''https://dash.example/api?client=syz&key=secret&method=report_failed_repro''
         (Some ''null''),
       Do \<lparr>Method = ''POST'',
           URL = ''https://dash.example/api?client=syz&key=secret&method=report_failed_repro'',
           Body = Some ''null'',
           Header = [''Content-Type'' \<mapsto> [''application/json'']]\<rparr>])"
  using facade_operations[of facade_lib sample_runtime
          "New ''syz'' ''https://dash.example'' ''secret''" "Call_ReportFailedRepro None"]
  by (simp add: Query_eval sample_defs New_def)

subsection \<open>A body that cannot be read\<close>

text \<open>
  Claim C10. When the response is not 200 and reading its body fails, \<^verbatim>\<open>Query\<close> still
  returns the error of a failed request: its text is made of the status line and of the
  bytes read before the failure (none, possibly), and the read error is not in it.
\<close>

theorem Query_read_error_discarded:
  assumes sent: "Do r \<in> set (events (Query L client addr key method ctor doer req reply))"
      and resp: "doer r = Inr resp"
      and code: "StatusCode resp \<noteq> StatusOK"
      and broken: "fault (RespBody resp) = Some read_err"
  shows "err (Query L client addr key method ctor doer req reply) =
           Some (''request failed with '' @ Status_line resp @ '': '' @ content (RespBody resp))
         \<and> ReadAll \<in> set (events (Query L client addr key method ctor doer req reply))"
  using non200_outcome(1,4)[OF sent resp code] by blast

theorem Query_read_error_discarded_witness:
  "err (Query sample_lib ''syz'' ''https://dash.example'' ''secret'' ''upload_build''
          sample_NewRequest
          (respond 502 ''502 Bad Gateway''
             \<lparr>content = ''upstr'', fault = Some ''unexpected EOF''\<rparr>)
          None None)
     = Some ''request failed with 502 Bad Gateway: upstr''"
proof -
  let ?body = "\<lparr>content = ''upstr'', fault = Some ''unexpected EOF''\<rparr>"
  let ?doer = "respond 502 ''502 Bad Gateway'' ?body"
  let ?resp = "\<lparr>Status_line = ''502 Bad Gateway'', StatusCode = 502, RespBody = ?body\<rparr>"
  let ?r = "\<lparr>Method = ''POST'',
             URL = ''https://dash.example/api?client=syz&key=secret&method=upload_build'',
             Body = None, Header = Map.empty\<rparr>"
  have sent: "Do ?r \<in> set (events (Query sample_lib ''syz'' ''https://dash.example'' ''secret''
                ''upload_build'' sample_NewRequest ?doer None None))"
    by (simp add: Query_eval sample_defs)
  have resp: "?doer ?r = Inr ?resp"
    by (simp add: respond_def)
  have code: "StatusCode ?resp \<noteq> StatusOK"
    by (simp add: StatusOK_def)
  have broken: "fault (RespBody ?resp) = Some ''unexpected EOF''"
    by simp
  from Query_read_error_discarded[OF sent resp code broken] show ?thesis
    by simp
qed

subsection \<open>The round trip through JSON\<close>

text \<open>
  Reading back what was written: a string, an integer, a \<^verbatim>\<open>[]byte\<close>, a tree, and then each
  record.
\<close>

lemma utf8_size_le: "utf8_size s \<le> 4"
  by (simp add: utf8_size_def)

subsubsection \<open>Strings\<close>

lemma code_lt_256: "code c < 256"
  by (simp add: code_def)

lemma char_of_code [simp]: "char_of (code c) = c"
  by (simp add: code_def)

lemma code_char_of: "n < 256 \<Longrightarrow> code (char_of n :: char) = n"
  by (simp add: code_def)






























subsubsection \<open>Integers\<close>

















subsubsection \<open>Base64\<close>

lemma b64_char_props:
  assumes "n < 64"
  shows "b64_value (b64_char n) = Some n" and "b64_char n \<noteq> CHR ''=''"
    and "b64_char n \<noteq> CHR 0x0A" and "b64_char n \<noteq> CHR 0x0D" and "code (b64_char n) < 0x80"
    and "escape_ascii (b64_char n) = [b64_char n]"
proof -
  consider (upper) "n < 26" | (lower) "26 \<le> n" "n < 52" | (digit) "52 \<le> n" "n < 62"
    | (plus) "n = 62" | (slash) "n = 63"
    using assms by linarith
  then have "b64_value (b64_char n) = Some n \<and> b64_char n \<noteq> CHR ''=''
      \<and> b64_char n \<noteq> CHR 0x0A \<and> b64_char n \<noteq> CHR 0x0D \<and> code (b64_char n) < 0x80
      \<and> escape_ascii (b64_char n) = [b64_char n]"
  proof cases
    case upper
    then show ?thesis
      by (simp add: b64_char_def b64_value_def between_def code_def escape_ascii_def
          char_of_eq_iff take_bit_eq_mod)
  next
    case lower
    then show ?thesis
      by (simp add: b64_char_def b64_value_def between_def code_def escape_ascii_def
          char_of_eq_iff take_bit_eq_mod)
  next
    case digit
    then show ?thesis
      by (simp add: b64_char_def b64_value_def between_def code_def escape_ascii_def
          char_of_eq_iff take_bit_eq_mod) arith
  next
    case plus
    then show ?thesis
      by (simp add: b64_char_def b64_value_def between_def code_def escape_ascii_def)
  next
    case slash
    then show ?thesis
      by (simp add: b64_char_def b64_value_def between_def code_def escape_ascii_def)
  qed
  then show "b64_value (b64_char n) = Some n" and "b64_char n \<noteq> CHR ''=''"
    and "b64_char n \<noteq> CHR 0x0A" and "b64_char n \<noteq> CHR 0x0D" and "code (b64_char n) < 0x80"
    and "escape_ascii (b64_char n) = [b64_char n]"
    by simp_all
qed

lemma div_shift: "(x::nat) < k \<Longrightarrow> (m * k + x) div k = m"
  by simp

lemma mod_shift: "(x::nat) < k \<Longrightarrow> (m * k + x) mod k = x"
  by simp

lemma b64_bounds:
  fixes a b c :: nat
  assumes "a < 256" "b < 256" "c < 256"
  shows "a div 4 < 64" "a mod 4 * 16 + b div 16 < 64" "b mod 16 * 4 + c div 64 < 64"
    "c mod 64 < 64" "a mod 4 * 16 < 64" "b mod 16 * 4 < 64"
  using assms by simp_all

lemma b64_first:
  fixes a b :: nat
  assumes "b < 256"
  shows "a div 4 * 4 + (a mod 4 * 16 + b div 16) div 16 = a"
proof -
  have "b div 16 < 16" using assms by simp
  then have "(a mod 4 * 16 + b div 16) div 16 = a mod 4" by (rule div_shift)
  then show ?thesis by simp
qed

lemma b64_second:
  fixes a b c :: nat
  assumes "b < 256" "c < 256"
  shows "(a mod 4 * 16 + b div 16) mod 16 * 16 + (b mod 16 * 4 + c div 64) div 4 = b"
proof -
  have "b div 16 < 16" using assms by simp
  then have 1: "(a mod 4 * 16 + b div 16) mod 16 = b div 16" by (rule mod_shift)
  have "c div 64 < 4" using assms by simp
  then have 2: "(b mod 16 * 4 + c div 64) div 4 = b mod 16" by (rule div_shift)
  show ?thesis unfolding 1 2 by simp
qed

lemma b64_third:
  fixes b c :: nat
  assumes "c < 256"
  shows "(b mod 16 * 4 + c div 64) mod 4 * 64 + c mod 64 = c"
proof -
  have "c div 64 < 4" using assms by simp
  then have 1: "(b mod 16 * 4 + c div 64) mod 4 = c div 64" by (rule mod_shift)
  show ?thesis unfolding 1 by simp
qed

lemma b64_first_pad: "(a::nat) div 4 * 4 + (a mod 4 * 16) div 16 = a"
  by simp

lemma b64_second_pad:
  fixes a b :: nat
  assumes "b < 256"
  shows "(a mod 4 * 16 + b div 16) mod 16 * 16 + (b mod 16 * 4) div 4 = b"
proof -
  have "b div 16 < 16" using assms by simp
  then have 1: "(a mod 4 * 16 + b div 16) mod 16 = b div 16" by (rule mod_shift)
  show ?thesis unfolding 1 by simp
qed

lemma b64_encode_Nil_iff: "b64_encode r = [] \<longleftrightarrow> r = []"
  by (induction r rule: b64_encode.induct) simp_all

lemma b64_quad:
  assumes "i < 64" "j < 64" "k < 64" "l < 64"
  shows "b64_groups (b64_char i # b64_char j # b64_char k # b64_char l # v # va) =
           map_option ((@) [char_of (i * 4 + j div 16), char_of (j mod 16 * 16 + k div 4),
                            char_of (k mod 4 * 64 + l)]) (b64_groups (v # va))"
    and "b64_groups [b64_char i, b64_char j, b64_char k, b64_char l] =
           Some [char_of (i * 4 + j div 16), char_of (j mod 16 * 16 + k div 4),
                 char_of (k mod 4 * 64 + l)]"
    and "b64_groups [b64_char i, b64_char j, b64_char k, CHR ''=''] =
           Some [char_of (i * 4 + j div 16), char_of (j mod 16 * 16 + k div 4)]"
    and "b64_groups [b64_char i, b64_char j, CHR ''='', CHR ''=''] =
           Some [char_of (i * 4 + j div 16)]"
  using b64_char_props(1,2)[OF assms(1)] b64_char_props(1,2)[OF assms(2)]
    b64_char_props(1,2)[OF assms(3)] b64_char_props(1,2)[OF assms(4)]
  by simp_all

lemma b64_groups_encode: "b64_groups (b64_encode bs) = Some bs"
proof (induction bs rule: b64_encode.induct)
  case (1 a b c r)
  note lt = code_lt_256[of a] code_lt_256[of b] code_lt_256[of c]
  note bd = b64_bounds(1-4)[OF lt]
  note q = b64_quad(1,2)[OF bd]
  note e = b64_first[OF lt(2), of "code a"] b64_second[OF lt(2,3), of "code a"]
    b64_third[OF lt(3), of "code b"]
  show ?case
  proof (cases "b64_encode r")
    case Nil
    then have "r = []" by (simp add: b64_encode_Nil_iff)
    then show ?thesis using q(2) e by simp
  next
    case (Cons v va)
    then show ?thesis using q(1)[of v va] e 1 by simp
  qed
next
  case (2 a b)
  note lt = code_lt_256[of a] code_lt_256[of b]
  note bd = b64_bounds(1,2,6)[OF lt lt(1)]
  note q = b64_quad(3)[OF bd bd(1)]
  note e = b64_first[OF lt(2), of "code a"] b64_second_pad[OF lt(2), of "code a"]
  show ?case using q e by simp
next
  case (3 a)
  note lt = code_lt_256[of a]
  note bd = b64_bounds(1,5)[OF lt lt lt]
  note q = b64_quad(4)[OF bd bd]
  show ?case using q b64_first_pad[of "code a"] by simp
next
  case 4
  show ?case by simp
qed

lemma b64_encode_clean:
  "filter (\<lambda>c. c \<noteq> CHR 0x0A \<and> c \<noteq> CHR 0x0D) (b64_encode bs) = b64_encode bs"
proof (induction bs rule: b64_encode.induct)
  case (1 a b c r)
  note lt = code_lt_256[of a] code_lt_256[of b] code_lt_256[of c]
  note bd = b64_bounds(1-4)[OF lt]
  show ?case
    using 1 b64_char_props(3,4)[OF bd(1)] b64_char_props(3,4)[OF bd(2)]
      b64_char_props(3,4)[OF bd(3)] b64_char_props(3,4)[OF bd(4)]
    by simp
next
  case (2 a b)
  note lt = code_lt_256[of a] code_lt_256[of b]
  note bd = b64_bounds(1,2,6)[OF lt lt(1)]
  show ?case
    using b64_char_props(3,4)[OF bd(1)] b64_char_props(3,4)[OF bd(2)]
      b64_char_props(3,4)[OF bd(3)]
    by simp
next
  case (3 a)
  note lt = code_lt_256[of a]
  note bd = b64_bounds(1,5)[OF lt lt lt]
  show ?case
    using b64_char_props(3,4)[OF bd(1)] b64_char_props(3,4)[OF bd(2)] by simp
next
  case 4
  show ?case by simp
qed

lemma b64_decode_encode: "b64_decode (b64_encode bs) = Some bs"
  by (simp add: b64_decode_def b64_encode_clean b64_groups_encode)

subsubsection \<open>Trees\<close>








lemma delimited_simps [simp]:
  "delimited (CHR '','' # r)" "delimited (CHR '']'' # r)" "delimited (CHR ''}'' # r)"
  "delimited []"
  by (simp_all add: delimited_def)

lemma space_simps [simp]:
  "\<not> is_space (CHR '','')" "\<not> is_space (CHR '']'')" "\<not> is_space (CHR ''}'')"
  "\<not> is_space (CHR '':'')" "\<not> is_space (CHR 0x22)"
  by (simp_all add: is_space_def)












subsubsection \<open>Records\<close>

lemma dec_string_JString [simp]: "dec_string (JString s) old = (None, s)"
  by (simp add: dec_string_def)

lemma dec_bytes_enc [simp]: "dec_bytes (enc_bytes b) old = (None, b)"
  by (cases b) (simp_all add: dec_bytes_def enc_bytes_def dec_slice_def b64_decode_encode)

lemma dec_elements_strings:
  "dec_elements dec_string z (map JString xs) old = (None, xs)"
  by (induction xs arbitrary: old) (simp_all add: first_error_def)

lemma dec_strings_enc [simp]:
  "dec_slice ty dec_string z (enc_strings l) old = (None, l)"
  by (cases l) (simp_all add: dec_slice_def enc_strings_def dec_elements_strings)


lemma field_ok: "d x (get v) = (None, f) \<Longrightarrow> field get put d x v = (None, put f v)"
  by (simp add: field_def)








lemma BugReport_json_not_null: "BugReport_json b \<noteq> JNull"
  by (simp add: BugReport_json_def)




lemma ascii_valid: "\<forall>c \<in> set s. code c < 0x80 \<Longrightarrow> valid_utf8 s"
  by (induction s) simp_all

lemma b64_encode_ascii: "\<forall>c \<in> set (b64_encode bs). code c < 0x80"
proof (induction bs rule: b64_encode.induct)
  case (1 a b c r)
  note lt = code_lt_256[of a] code_lt_256[of b] code_lt_256[of c]
  note bd = b64_bounds(1-4)[OF lt]
  show ?case
    using 1 b64_char_props(5)[OF bd(1)] b64_char_props(5)[OF bd(2)]
      b64_char_props(5)[OF bd(3)] b64_char_props(5)[OF bd(4)]
    by simp
next
  case (2 a b)
  note lt = code_lt_256[of a] code_lt_256[of b]
  note bd = b64_bounds(1,2,6)[OF lt lt(1)]
  show ?case
    using b64_char_props(5)[OF bd(1)] b64_char_props(5)[OF bd(2)] b64_char_props(5)[OF bd(3)]
    by (simp add: code_def)
next
  case (3 a)
  note lt = code_lt_256[of a]
  note bd = b64_bounds(1,5)[OF lt lt lt]
  show ?case
    using b64_char_props(5)[OF bd(1)] b64_char_props(5)[OF bd(2)] by (simp add: code_def)
next
  case 4
  show ?case by simp
qed

lemma wf_enc_bytes [simp]: "wf_json (enc_bytes b)"
  by (cases b) (simp_all add: enc_bytes_def ascii_valid b64_encode_ascii)

lemma wf_enc_strings [simp]: "valid_strings l \<Longrightarrow> wf_json (enc_strings l)"
  by (cases l) (auto simp: enc_strings_def valid_strings_def list_all_iff)

lemma wf_enc_int [simp]: "wf_json (enc_int i)"
  by (auto simp: enc_int_def)











subsubsection \<open>The claim\<close>





end
